theory Spec2Isabelle
  imports Complex_Main
begin

section \<open>Data model\<close>

text \<open>
  Keyframe tracks of the editor: \<^verbatim>\<open>SplatAnimTrack\<close> (splat-anim-track.ts),
  \<^verbatim>\<open>CameraAnimTrack\<close> (camera-poses.ts) and the dispatch of
  \<^verbatim>\<open>registerAnimTrackEvents\<close> (anim-track.ts).

  A JavaScript \<^verbatim>\<open>number\<close> is modelled as a real: arithmetic is exact, and
  \<^verbatim>\<open>NaN\<close>, the infinities and rounding are outside the model. A \<^verbatim>\<open>Vec3\<close>
  is its three components, a \<^verbatim>\<open>Quat\<close> its four.
\<close>

type_synonym Vec3 = "real \<times> real \<times> real"
type_synonym Quat = "real \<times> real \<times> real \<times> real"

record TransformKey =
  frame :: real
  position :: Vec3
  rotation :: Quat
  scale :: Vec3

record Pose =
  name :: string
  frame :: real
  position :: Vec3
  target :: Vec3

text \<open>The only exception the modelled code can raise: a property access on \<^verbatim>\<open>undefined\<close>
  or \<^verbatim>\<open>null\<close>.\<close>

datatype error = TypeError

text \<open>The queries \<^verbatim>\<open>timeline.frames\<close> (the duration), \<^verbatim>\<open>timeline.frame\<close>
  (the cursor), \<^verbatim>\<open>timeline.smoothness\<close> and \<^verbatim>\<open>timeline.frameRate\<close> that the
  tracks invoke on the event bus.\<close>

record Timeline =
  timeline_frames :: real
  timeline_frame :: real
  timeline_smoothness :: real
  timeline_frameRate :: real

text \<open>
  \<^verbatim>\<open>CubicSpline\<close> (anim/spline.ts) is a primitive outside these sources. A spline
  object is represented by the arguments it was built from; what it returns when sampled
  is a parameter \<open>splineEvaluate\<close> of the functions that sample it
  (\<open>splineEvaluate s frame i\<close> is the entry \<open>i\<close> of the result array).
\<close>

record CubicSpline =
  period :: real
  times :: "real list"
  points :: "real list"
  smoothness :: real

definition fromPointsLooping :: "real \<Rightarrow> real list \<Rightarrow> real list \<Rightarrow> real \<Rightarrow> CubicSpline" where
  "fromPointsLooping len ts ps sm = \<lparr>period = len, times = ts, points = ps, smoothness = sm\<rparr>"

text \<open>
  What an operation does to the outside: the notifications it fires on the event bus, in
  order, and the writes to the bound target (\<^verbatim>\<open>splat.move(position, rotation, scale)\<close>
  and \<^verbatim>\<open>events.fire('camera.setPose', pose, 0)\<close>).
\<close>

datatype effect =
    KeyAdded real
  | KeyUpdated real
  | KeyRemoved real
  | KeyMoved real real
  | KeysCleared
  | KeysLoaded "real list"
  | KeysChanged
  | SplatMove Vec3 Quat Vec3
  | CameraSetPose Vec3 Vec3 real

fun isTargetWrite :: "effect \<Rightarrow> bool" where
  "isTargetWrite (SplatMove p r s) = True"
| "isTargetWrite (CameraSetPose p t d) = True"
| "isTargetWrite e = False"

fun isStructural :: "effect \<Rightarrow> bool" where
  "isStructural (KeyAdded f) = True"
| "isStructural (KeyUpdated f) = True"
| "isStructural (KeyRemoved f) = True"
| "isStructural (KeyMoved a b) = True"
| "isStructural KeysCleared = True"
| "isStructural (KeysLoaded fs) = True"
| "isStructural e = False"

subsection \<open>Array primitives\<close>

text \<open>\<^verbatim>\<open>Array.prototype.findIndex\<close>: the first index whose element satisfies the
  predicate; \<open>None\<close> is JavaScript's \<open>-1\<close>.\<close>

fun findIndex :: "('a \<Rightarrow> bool) \<Rightarrow> 'a list \<Rightarrow> nat option" where
  "findIndex P [] = None"
| "findIndex P (x # xs) = (if P x then Some 0 else map_option Suc (findIndex P xs))"

text \<open>\<^verbatim>\<open>xs.splice(i, 1)\<close>: the element at index \<open>i\<close> is removed and the later ones
  move down by one.\<close>

definition splice1 :: "nat \<Rightarrow> 'a list \<Rightarrow> 'a list" where
  "splice1 i xs = take i xs @ drop (Suc i) xs"

section \<open>SplatAnimTrack\<close>

text \<open>The bound splat's entity, read by \<^verbatim>\<open>addKey\<close>.\<close>

record Entity =
  localPosition :: Vec3
  localRotation :: Quat
  localScale :: Vec3

text \<open>
  The closure \<^verbatim>\<open>onTimelineChange\<close> built by \<^verbatim>\<open>rebuildSplines\<close> captures
  \<open>rotationKeys\<close> and \<open>duration\<close>; the two splines are read from the track
  when it runs. \<open>rotationKeys\<close> shares its key objects with the store; the only in-place
  write to a key (in \<^verbatim>\<open>moveKey\<close>) is followed at once by a rebuild that replaces the
  closure, so the captured keys are kept by value.
\<close>

record SplatClosure =
  rotationKeys :: "TransformKey list"
  duration :: real

record SplatAnimTrack =
  keyframes :: "TransformKey list"
  positionSpline :: "CubicSpline option"
  scaleSpline :: "CubicSpline option"
  onTimelineChange :: "SplatClosure option"

definition SplatAnimTrack_new :: SplatAnimTrack where
  "SplatAnimTrack_new =
     \<lparr>keyframes = [], positionSpline = None, scaleSpline = None,
      SplatAnimTrack.onTimelineChange = None\<rparr>"

definition SplatAnimTrack_keys :: "SplatAnimTrack \<Rightarrow> real list" where
  "SplatAnimTrack_keys tr = map TransformKey.frame (keyframes tr)"

fun pack3 :: "Vec3 \<Rightarrow> real list" where
  "pack3 (x, y, z) = [x, y, z]"

definition SplatAnimTrack_rebuildSplines :: "Timeline \<Rightarrow> SplatAnimTrack \<Rightarrow> SplatAnimTrack" where
  "SplatAnimTrack_rebuildSplines tml tr =
     (let dur = timeline_frames tml;
          sm = timeline_smoothness tml;
          orderedKeys = sort_key TransformKey.frame
                          (filter (\<lambda>k. TransformKey.frame k < dur) (keyframes tr))
      in if length orderedKeys < 2
         then tr\<lparr>positionSpline := None, scaleSpline := None,
                 SplatAnimTrack.onTimelineChange := None\<rparr>
         else
           let ts = map TransformKey.frame orderedKeys;
               posPoints = concat (map (\<lambda>k. pack3 (TransformKey.position k)) orderedKeys);
               scalePoints = concat (map (\<lambda>k. pack3 (TransformKey.scale k)) orderedKeys)
           in tr\<lparr>positionSpline := Some (fromPointsLooping dur ts posPoints sm),
                  scaleSpline := Some (fromPointsLooping dur ts scalePoints sm),
                  SplatAnimTrack.onTimelineChange :=
                    Some \<lparr>rotationKeys = orderedKeys, duration = dur\<rparr>\<rparr>)"

definition SplatAnimTrack_addKey ::
  "Timeline \<Rightarrow> Entity \<Rightarrow> real \<Rightarrow> SplatAnimTrack \<Rightarrow> SplatAnimTrack \<times> effect list" where
  "SplatAnimTrack_addKey tml entity fr tr =
     (let newKey = \<lparr>TransformKey.frame = fr,
                    TransformKey.position = localPosition entity,
                    TransformKey.rotation = localRotation entity,
                    TransformKey.scale = localScale entity\<rparr>
      in case findIndex (\<lambda>k. TransformKey.frame k = fr) (keyframes tr) of
           None \<Rightarrow>
             (SplatAnimTrack_rebuildSplines tml (tr\<lparr>keyframes := keyframes tr @ [newKey]\<rparr>),
              [KeyAdded fr])
         | Some existingIndex \<Rightarrow>
             (SplatAnimTrack_rebuildSplines tml
                (tr\<lparr>keyframes := (keyframes tr)[existingIndex := newKey]\<rparr>),
              [KeyUpdated fr]))"

definition SplatAnimTrack_removeKey ::
  "Timeline \<Rightarrow> real \<Rightarrow> SplatAnimTrack \<Rightarrow> SplatAnimTrack \<times> effect list" where
  "SplatAnimTrack_removeKey tml fr tr =
     (case findIndex (\<lambda>k. TransformKey.frame k = fr) (keyframes tr) of
        None \<Rightarrow> (tr, [])
      | Some index \<Rightarrow>
          (SplatAnimTrack_rebuildSplines tml (tr\<lparr>keyframes := splice1 index (keyframes tr)\<rparr>),
           [KeyRemoved fr]))"

text \<open>
  \<^verbatim>\<open>moveKey\<close>: \<open>index\<close> is computed before the occupant of \<open>toFrame\<close> is spliced
  out and is used after it. When \<open>index\<close> is no longer inside the array,
  \<^verbatim>\<open>this.keyframes[index]\<close> is \<^verbatim>\<open>undefined\<close> and the assignment to its
  \<^verbatim>\<open>frame\<close> raises; the store stays as the splice left it, nothing is rebuilt and
  nothing is fired. An operation that can raise returns \<open>Inl\<close> of the error and the
  track as it was left.
\<close>

definition SplatAnimTrack_moveKey ::
  "Timeline \<Rightarrow> real \<Rightarrow> real \<Rightarrow> SplatAnimTrack
     \<Rightarrow> (error \<times> SplatAnimTrack) + (SplatAnimTrack \<times> effect list)" where
  "SplatAnimTrack_moveKey tml fromFrame toFrame tr =
     (if fromFrame = toFrame then Inr (tr, [])
      else case findIndex (\<lambda>k. TransformKey.frame k = fromFrame) (keyframes tr) of
        None \<Rightarrow> Inr (tr, [])
      | Some index \<Rightarrow>
          let ks = (case findIndex (\<lambda>k. TransformKey.frame k = toFrame) (keyframes tr) of
                      None \<Rightarrow> keyframes tr
                    | Some toIndex \<Rightarrow> splice1 toIndex (keyframes tr))
          in if index < length ks
             then Inr (SplatAnimTrack_rebuildSplines tml
                         (tr\<lparr>keyframes := ks[index := (ks ! index)\<lparr>TransformKey.frame := toFrame\<rparr>]\<rparr>),
                       [KeyMoved fromFrame toFrame])
             else Inl (TypeError, tr\<lparr>keyframes := ks\<rparr>))"

definition SplatAnimTrack_clear :: "SplatAnimTrack \<Rightarrow> SplatAnimTrack \<times> effect list" where
  "SplatAnimTrack_clear tr =
     (tr\<lparr>keyframes := [], positionSpline := None, scaleSpline := None,
         SplatAnimTrack.onTimelineChange := None\<rparr>,
      [KeysCleared])"

definition SplatAnimTrack_getKeyframes :: "SplatAnimTrack \<Rightarrow> TransformKey list" where
  "SplatAnimTrack_getKeyframes tr = keyframes tr"

definition SplatAnimTrack_loadKeyframes ::
  "Timeline \<Rightarrow> TransformKey list \<Rightarrow> SplatAnimTrack \<Rightarrow> SplatAnimTrack \<times> effect list" where
  "SplatAnimTrack_loadKeyframes tml keyframesData tr =
     (let tr' = SplatAnimTrack_rebuildSplines tml
                  (tr\<lparr>keyframes :=
                        map (\<lambda>kf. \<lparr>TransformKey.frame = TransformKey.frame kf,
                                   TransformKey.position = TransformKey.position kf,
                                   TransformKey.rotation = TransformKey.rotation kf,
                                   TransformKey.scale = TransformKey.scale kf\<rparr>)
                            keyframesData\<rparr>)
      in (tr', [KeysLoaded (SplatAnimTrack_keys tr')]))"

subsection \<open>Evaluation: splines for position and scale, bracketed slerp for rotation\<close>

text \<open>
  The \<^verbatim>\<open>for\<close> loop of the closure, from index \<open>i\<close> on, with the current
  \<open>(prevKey, nextKey)\<close>. It runs on a non-empty \<open>rotationKeys\<close> only.
\<close>

function rotationBracket ::
  "TransformKey list \<Rightarrow> real \<Rightarrow> nat \<Rightarrow> TransformKey \<times> TransformKey \<Rightarrow> TransformKey \<times> TransformKey" where
  "rotationBracket ks fr i (prevKey, nextKey) =
     (if i < length ks then
        if TransformKey.frame (ks ! i) > fr
        then (ks ! (if i > 0 then i - 1 else length ks - 1), ks ! i)
        else if i = length ks - 1
             then rotationBracket ks fr (i + 1) (ks ! i, ks ! 0)
             else rotationBracket ks fr (i + 1) (prevKey, nextKey)
      else (prevKey, nextKey))"
  by pat_completeness auto
termination
  by (relation "measure (\<lambda>(ks, fr, i, p). length ks - i)") auto

declare rotationBracket.simps [simp del]

text \<open>
  The body of the closure. \<open>slerp\<close> is \<^verbatim>\<open>Quat.slerp\<close> of the engine library, a
  parameter like \<open>splineEvaluate\<close>. A missing spline or an empty \<open>rotationKeys\<close>
  would be a property access on \<^verbatim>\<open>null\<close> or \<^verbatim>\<open>undefined\<close>. The denominator
  \<open>nextFrame - prevFrame\<close> is zero only with negative frames, which the data model
  excludes.
\<close>

definition SplatAnimTrack_closure ::
  "(CubicSpline \<Rightarrow> real \<Rightarrow> nat \<Rightarrow> real) \<Rightarrow> (Quat \<Rightarrow> Quat \<Rightarrow> real \<Rightarrow> Quat)
     \<Rightarrow> SplatAnimTrack \<Rightarrow> SplatClosure \<Rightarrow> real \<Rightarrow> error + effect list" where
  "SplatAnimTrack_closure splineEvaluate slerp tr c fr =
     (case positionSpline tr of
        None \<Rightarrow> Inl TypeError
      | Some ps \<Rightarrow>
          let posResult = splineEvaluate ps fr;
              pos = (posResult 0, posResult 1, posResult 2)
          in (case scaleSpline tr of
               None \<Rightarrow> Inl TypeError
             | Some ss \<Rightarrow>
                 let scaleResult = splineEvaluate ss fr;
                     scl = (scaleResult 0, scaleResult 1, scaleResult 2);
                     ks = rotationKeys c
                 in if ks = [] then Inl TypeError
                    else
                      let (prevKey, nextKey) =
                            rotationBracket ks fr 0 (ks ! (length ks - 1), ks ! 0);
                          prevFrame = TransformKey.frame prevKey;
                          nextFrame0 = TransformKey.frame nextKey;
                          nextFrame = (if nextFrame0 \<le> prevFrame
                                       then nextFrame0 + duration c else nextFrame0);
                          t = (if fr < prevFrame
                               then (fr + duration c - prevFrame) / (nextFrame - prevFrame)
                               else (fr - prevFrame) / (nextFrame - prevFrame));
                          t' = max 0 (min 1 t)
                      in Inr [SplatMove pos
                                (slerp (TransformKey.rotation prevKey)
                                       (TransformKey.rotation nextKey) t')
                                scl]))"

definition SplatAnimTrack_evaluate ::
  "(CubicSpline \<Rightarrow> real \<Rightarrow> nat \<Rightarrow> real) \<Rightarrow> (Quat \<Rightarrow> Quat \<Rightarrow> real \<Rightarrow> Quat)
     \<Rightarrow> real \<Rightarrow> SplatAnimTrack \<Rightarrow> (error \<times> SplatAnimTrack) + (SplatAnimTrack \<times> effect list)" where
  "SplatAnimTrack_evaluate splineEvaluate slerp fr tr =
     (case SplatAnimTrack.onTimelineChange tr of
        None \<Rightarrow> Inr (tr, [])
      | Some c \<Rightarrow>
          (case SplatAnimTrack_closure splineEvaluate slerp tr c fr of
             Inl e \<Rightarrow> Inl (e, tr)
           | Inr effs \<Rightarrow> Inr (tr, effs)))"

section \<open>CameraAnimTrack\<close>

text \<open>What \<^verbatim>\<open>camera.getPose\<close> returns when a pose is available.\<close>

record CameraPose =
  position :: Vec3
  target :: Vec3

text \<open>The closure \<^verbatim>\<open>onTimelineChange\<close> of the camera track captures the spline
  alone, so the closure is represented by that spline.\<close>

record CameraAnimTrack =
  poses :: "Pose list"
  onTimelineChange :: "CubicSpline option"

definition CameraAnimTrack_new :: CameraAnimTrack where
  "CameraAnimTrack_new = \<lparr>poses = [], CameraAnimTrack.onTimelineChange = None\<rparr>"

definition CameraAnimTrack_keys :: "CameraAnimTrack \<Rightarrow> real list" where
  "CameraAnimTrack_keys tr = map Pose.frame (poses tr)"

definition CameraAnimTrack_rebuildSpline :: "Timeline \<Rightarrow> CameraAnimTrack \<Rightarrow> CameraAnimTrack" where
  "CameraAnimTrack_rebuildSpline tml tr =
     (let dur = timeline_frames tml;
          orderedPoses = sort_key Pose.frame (filter (\<lambda>a. Pose.frame a < dur) (poses tr));
          ts = map Pose.frame orderedPoses;
          pts = concat (map (\<lambda>p. pack3 (Pose.position p) @ pack3 (Pose.target p)) orderedPoses)
      in if length orderedPoses > 1
         then tr\<lparr>CameraAnimTrack.onTimelineChange :=
                   Some (fromPointsLooping dur ts pts (timeline_smoothness tml))\<rparr>
         else tr\<lparr>CameraAnimTrack.onTimelineChange := None\<rparr>)"

text \<open>The decimal digits of a number, as the template literal
  \<^verbatim>\<open>`camera_${this.poses.length}`\<close> prints them.\<close>

fun decimal :: "nat \<Rightarrow> string" where
  "decimal n = (if n < 10 then [''0123456789'' ! n]
                else decimal (n div 10) @ [''0123456789'' ! (n mod 10)])"

declare decimal.simps [simp del]

definition CameraAnimTrack_addKey ::
  "Timeline \<Rightarrow> CameraPose option \<Rightarrow> real \<Rightarrow> CameraAnimTrack \<Rightarrow> CameraAnimTrack \<times> effect list" where
  "CameraAnimTrack_addKey tml getPose fr tr =
     (case getPose of
        None \<Rightarrow> (tr, [])
      | Some pose \<Rightarrow>
          (let newPose = \<lparr>Pose.name = ''camera_'' @ decimal (length (poses tr)),
                          Pose.frame = fr,
                          Pose.position = CameraPose.position pose,
                          Pose.target = CameraPose.target pose\<rparr>
           in (case findIndex (\<lambda>p. Pose.frame p = fr) (poses tr) of
                 None \<Rightarrow>
                   (CameraAnimTrack_rebuildSpline tml (tr\<lparr>poses := poses tr @ [newPose]\<rparr>),
                    [KeyAdded fr])
               | Some existingIndex \<Rightarrow>
                   (CameraAnimTrack_rebuildSpline tml
                      (tr\<lparr>poses := (poses tr)[existingIndex := newPose]\<rparr>),
                    [KeyUpdated fr]))))"

definition CameraAnimTrack_removeKey ::
  "Timeline \<Rightarrow> real \<Rightarrow> CameraAnimTrack \<Rightarrow> CameraAnimTrack \<times> effect list" where
  "CameraAnimTrack_removeKey tml fr tr =
     (case findIndex (\<lambda>p. Pose.frame p = fr) (poses tr) of
        None \<Rightarrow> (tr, [])
      | Some index \<Rightarrow>
          (CameraAnimTrack_rebuildSpline tml (tr\<lparr>poses := splice1 index (poses tr)\<rparr>),
           [KeyRemoved fr]))"

text \<open>\<^verbatim>\<open>moveKey\<close> is the same code as on the splat track, with the same use of
  \<open>index\<close> after the splice.\<close>

definition CameraAnimTrack_moveKey ::
  "Timeline \<Rightarrow> real \<Rightarrow> real \<Rightarrow> CameraAnimTrack
     \<Rightarrow> (error \<times> CameraAnimTrack) + (CameraAnimTrack \<times> effect list)" where
  "CameraAnimTrack_moveKey tml fromFrame toFrame tr =
     (if fromFrame = toFrame then Inr (tr, [])
      else case findIndex (\<lambda>p. Pose.frame p = fromFrame) (poses tr) of
        None \<Rightarrow> Inr (tr, [])
      | Some index \<Rightarrow>
          let ps = (case findIndex (\<lambda>p. Pose.frame p = toFrame) (poses tr) of
                      None \<Rightarrow> poses tr
                    | Some toIndex \<Rightarrow> splice1 toIndex (poses tr))
          in if index < length ps
             then Inr (CameraAnimTrack_rebuildSpline tml
                         (tr\<lparr>poses := ps[index := (ps ! index)\<lparr>Pose.frame := toFrame\<rparr>]\<rparr>),
                       [KeyMoved fromFrame toFrame])
             else Inl (TypeError, tr\<lparr>poses := ps\<rparr>))"

definition CameraAnimTrack_closure ::
  "(CubicSpline \<Rightarrow> real \<Rightarrow> nat \<Rightarrow> real) \<Rightarrow> CubicSpline \<Rightarrow> real \<Rightarrow> effect list" where
  "CameraAnimTrack_closure splineEvaluate spline fr =
     (let result = splineEvaluate spline fr
      in [CameraSetPose (result 0, result 1, result 2) (result 3, result 4, result 5) 0])"

definition CameraAnimTrack_evaluate ::
  "(CubicSpline \<Rightarrow> real \<Rightarrow> nat \<Rightarrow> real) \<Rightarrow> real \<Rightarrow> CameraAnimTrack
     \<Rightarrow> CameraAnimTrack \<times> effect list" where
  "CameraAnimTrack_evaluate splineEvaluate fr tr =
     (case CameraAnimTrack.onTimelineChange tr of
        None \<Rightarrow> (tr, [])
      | Some spline \<Rightarrow> (tr, CameraAnimTrack_closure splineEvaluate spline fr))"

definition CameraAnimTrack_clear :: "CameraAnimTrack \<Rightarrow> CameraAnimTrack \<times> effect list" where
  "CameraAnimTrack_clear tr =
     (tr\<lparr>poses := [], CameraAnimTrack.onTimelineChange := None\<rparr>, [KeysCleared])"

text \<open>
  A pose as it arrives from outside the track, its frame possibly missing
  (\<^verbatim>\<open>undefined\<close>): the argument of \<^verbatim>\<open>addPose\<close>, and a record of a document,
  whose \<^verbatim>\<open>position\<close> and \<^verbatim>\<open>target\<close> are the arrays \<^verbatim>\<open>[x, y, z]\<close>.
\<close>

record DocPose =
  name :: string
  frame :: "real option"
  position :: Vec3
  target :: Vec3

definition CameraAnimTrack_addPose ::
  "Timeline \<Rightarrow> DocPose \<Rightarrow> CameraAnimTrack \<Rightarrow> CameraAnimTrack" where
  "CameraAnimTrack_addPose tml pose tr =
     (case DocPose.frame pose of
        None \<Rightarrow> tr
      | Some fr \<Rightarrow>
          let p = \<lparr>Pose.name = DocPose.name pose, Pose.frame = fr,
                   Pose.position = DocPose.position pose, Pose.target = DocPose.target pose\<rparr>
          in CameraAnimTrack_rebuildSpline tml
               (case findIndex (\<lambda>q. Pose.frame q = fr) (poses tr) of
                  Some idx \<Rightarrow> tr\<lparr>poses := (poses tr)[idx := p]\<rparr>
                | None \<Rightarrow> tr\<lparr>poses := poses tr @ [p]\<rparr>))"

definition CameraAnimTrack_getPoses :: "CameraAnimTrack \<Rightarrow> Pose list" where
  "CameraAnimTrack_getPoses tr = poses tr"

definition CameraAnimTrack_loadPoses ::
  "Timeline \<Rightarrow> Pose list \<Rightarrow> CameraAnimTrack \<Rightarrow> CameraAnimTrack \<times> effect list" where
  "CameraAnimTrack_loadPoses tml posesData tr =
     (let tr' = CameraAnimTrack_rebuildSpline tml (tr\<lparr>poses := posesData\<rparr>)
      in (tr', [KeysLoaded (CameraAnimTrack_keys tr')]))"

subsection \<open>The handlers of registerCameraPosesEvents\<close>

text \<open>The handlers of \<^verbatim>\<open>timeline.frames\<close> and \<^verbatim>\<open>timeline.smoothness\<close>: they run
  after the timeline took its new value, which is the \<open>tml\<close> they read.\<close>

definition on_timeline_frames ::
  "(CubicSpline \<Rightarrow> real \<Rightarrow> nat \<Rightarrow> real) \<Rightarrow> Timeline \<Rightarrow> CameraAnimTrack
     \<Rightarrow> CameraAnimTrack \<times> effect list" where
  "on_timeline_frames splineEvaluate tml tr =
     (let (tr', effs) = CameraAnimTrack_evaluate splineEvaluate (timeline_frame tml) tr
      in (tr', effs @ [KeysChanged]))"

definition on_timeline_smoothness ::
  "(CubicSpline \<Rightarrow> real \<Rightarrow> nat \<Rightarrow> real) \<Rightarrow> Timeline \<Rightarrow> CameraAnimTrack
     \<Rightarrow> CameraAnimTrack \<times> effect list" where
  "on_timeline_smoothness splineEvaluate tml tr =
     CameraAnimTrack_evaluate splineEvaluate (timeline_frame tml) tr"

text \<open>A pose set of a document, and the two serialization functions.\<close>

record PoseSet =
  setName :: string
  setPoses :: "DocPose list"

definition docSerialize_poseSets :: "CameraAnimTrack \<Rightarrow> PoseSet list" where
  "docSerialize_poseSets tr =
     (let ps = CameraAnimTrack_getPoses tr
      in if length ps = 0 then []
         else [\<lparr>setName = ''set0'',
                 setPoses = map (\<lambda>pose. \<lparr>DocPose.name = Pose.name pose,
                                          DocPose.frame = Some (Pose.frame pose),
                                          DocPose.position = Pose.position pose,
                                          DocPose.target = Pose.target pose\<rparr>) ps\<rparr>])"

definition docDeserialize_poseSets ::
  "Timeline \<Rightarrow> PoseSet list \<Rightarrow> CameraAnimTrack \<Rightarrow> CameraAnimTrack \<times> effect list" where
  "docDeserialize_poseSets tml poseSets tr =
     (case poseSets of
        [] \<Rightarrow> (tr, [])
      | set0 # rest \<Rightarrow>
          let fps = timeline_frameRate tml;
              loadedPoses =
                map (\<lambda>(index, docPose).
                       \<lparr>Pose.name = DocPose.name docPose,
                        Pose.frame = (case DocPose.frame docPose of
                                        Some fr \<Rightarrow> fr
                                      | None \<Rightarrow> real index * fps),
                        Pose.position = DocPose.position docPose,
                        Pose.target = DocPose.target docPose\<rparr>)
                    (enumerate 0 (setPoses set0))
          in CameraAnimTrack_loadPoses tml loadedPoses tr)"

section \<open>Selection and the track resolver\<close>

text \<open>
  The element types that occur in these sources. A selected element carries its type
  and its \<^verbatim>\<open>animTrack\<close> property: \<open>None\<close> when the element has no such
  property, \<open>Some None\<close> when the property is \<^verbatim>\<open>null\<close>, \<open>Some (Some r)\<close>
  when it holds a track. Tracks are objects; a track is named by a reference, the
  camera's single track or the track of the splat with a given number.
\<close>

datatype ElementType = camera | splat | other

datatype TrackRef = CameraTrackRef | SplatTrackRef nat

record Element =
  type :: ElementType
  animTrack :: "TrackRef option option"

record World =
  timeline :: Timeline
  selection :: "Element option"
  camera_getPose :: "CameraPose option"
  camera_animTrack :: CameraAnimTrack
  splat_animTrack :: "nat \<Rightarrow> SplatAnimTrack"
  splat_entity :: "nat \<Rightarrow> Entity"

definition selection_isCamera :: "World \<Rightarrow> bool" where
  "selection_isCamera w =
     (case selection w of None \<Rightarrow> False | Some el \<Rightarrow> type el = ElementType.camera)"

definition isAnimatable :: "Element \<Rightarrow> bool" where
  "isAnimatable obj =
     (case animTrack obj of None \<Rightarrow> False | Some None \<Rightarrow> False | Some (Some t) \<Rightarrow> True)"

definition getActiveTrack :: "World \<Rightarrow> TrackRef option" where
  "getActiveTrack w =
     (if selection_isCamera w then Some CameraTrackRef
      else case selection w of
             None \<Rightarrow> None
           | Some sel \<Rightarrow> (if isAnimatable sel then the (animTrack sel) else None))"

text \<open>The methods of the \<^verbatim>\<open>AnimTrack\<close> interface, on the object a reference names.\<close>

fun AnimTrack_keys :: "TrackRef \<Rightarrow> World \<Rightarrow> real list" where
  "AnimTrack_keys CameraTrackRef w = CameraAnimTrack_keys (camera_animTrack w)"
| "AnimTrack_keys (SplatTrackRef i) w = SplatAnimTrack_keys (splat_animTrack w i)"

fun AnimTrack_addKey :: "TrackRef \<Rightarrow> real \<Rightarrow> World \<Rightarrow> World \<times> effect list" where
  "AnimTrack_addKey CameraTrackRef fr w =
     (let (tr, effs) = CameraAnimTrack_addKey (timeline w) (camera_getPose w) fr (camera_animTrack w)
      in (w\<lparr>camera_animTrack := tr\<rparr>, effs))"
| "AnimTrack_addKey (SplatTrackRef i) fr w =
     (let (tr, effs) = SplatAnimTrack_addKey (timeline w) (splat_entity w i) fr (splat_animTrack w i)
      in (w\<lparr>splat_animTrack := (splat_animTrack w)(i := tr)\<rparr>, effs))"

fun AnimTrack_removeKey :: "TrackRef \<Rightarrow> real \<Rightarrow> World \<Rightarrow> World \<times> effect list" where
  "AnimTrack_removeKey CameraTrackRef fr w =
     (let (tr, effs) = CameraAnimTrack_removeKey (timeline w) fr (camera_animTrack w)
      in (w\<lparr>camera_animTrack := tr\<rparr>, effs))"
| "AnimTrack_removeKey (SplatTrackRef i) fr w =
     (let (tr, effs) = SplatAnimTrack_removeKey (timeline w) fr (splat_animTrack w i)
      in (w\<lparr>splat_animTrack := (splat_animTrack w)(i := tr)\<rparr>, effs))"

fun AnimTrack_moveKey ::
  "TrackRef \<Rightarrow> real \<Rightarrow> real \<Rightarrow> World \<Rightarrow> (error \<times> World) + (World \<times> effect list)" where
  "AnimTrack_moveKey CameraTrackRef fromFrame toFrame w =
     (case CameraAnimTrack_moveKey (timeline w) fromFrame toFrame (camera_animTrack w) of
        Inl (e, tr) \<Rightarrow> Inl (e, w\<lparr>camera_animTrack := tr\<rparr>)
      | Inr (tr, effs) \<Rightarrow> Inr (w\<lparr>camera_animTrack := tr\<rparr>, effs))"
| "AnimTrack_moveKey (SplatTrackRef i) fromFrame toFrame w =
     (case SplatAnimTrack_moveKey (timeline w) fromFrame toFrame (splat_animTrack w i) of
        Inl (e, tr) \<Rightarrow> Inl (e, w\<lparr>splat_animTrack := (splat_animTrack w)(i := tr)\<rparr>)
      | Inr (tr, effs) \<Rightarrow> Inr (w\<lparr>splat_animTrack := (splat_animTrack w)(i := tr)\<rparr>, effs))"

text \<open>The handlers of \<^verbatim>\<open>registerAnimTrackEvents\<close>. An omitted frame argument is
  \<open>None\<close>.\<close>

definition track_keys :: "World \<Rightarrow> real list" where
  "track_keys w = (case getActiveTrack w of Some track \<Rightarrow> AnimTrack_keys track w | None \<Rightarrow> [])"

definition track_addKey :: "real option \<Rightarrow> World \<Rightarrow> World \<times> effect list" where
  "track_addKey fr w =
     (case getActiveTrack w of
        Some track \<Rightarrow>
          (let keyFrame = (case fr of Some f \<Rightarrow> f | None \<Rightarrow> timeline_frame (timeline w))
           in AnimTrack_addKey track keyFrame w)
      | None \<Rightarrow> (w, []))"

definition track_removeKey :: "real option \<Rightarrow> World \<Rightarrow> World \<times> effect list" where
  "track_removeKey fr w =
     (case getActiveTrack w of
        Some track \<Rightarrow>
          (let keyFrame = (case fr of Some f \<Rightarrow> f | None \<Rightarrow> timeline_frame (timeline w))
           in AnimTrack_removeKey track keyFrame w)
      | None \<Rightarrow> (w, []))"

definition track_moveKey ::
  "real \<Rightarrow> real \<Rightarrow> World \<Rightarrow> (error \<times> World) + (World \<times> effect list)" where
  "track_moveKey fromFrame toFrame w =
     (case getActiveTrack w of
        Some track \<Rightarrow> AnimTrack_moveKey track fromFrame toFrame w
      | None \<Rightarrow> Inr (w, []))"

text \<open>The state an operation that may raise leaves behind, and what it fired.\<close>

fun stateAfter :: "(error \<times> 'a) + ('a \<times> effect list) \<Rightarrow> 'a" where
  "stateAfter (Inl (e, s)) = s"
| "stateAfter (Inr (s, effs)) = s"

fun effectsOf :: "(error \<times> 'a) + ('a \<times> effect list) \<Rightarrow> effect list" where
  "effectsOf (Inl (e, s)) = []"
| "effectsOf (Inr (s, effs)) = effs"

section \<open>Sequences of operations on one track\<close>

text \<open>
  The mutating operations of a track as data, each run under the timeline of its moment.
  After a \<^verbatim>\<open>moveKey\<close> that raised, the track goes on from the state the call left.
  \<open>loadsUnique\<close> holds of every operation but a bulk load whose data has two
  records with one frame.
\<close>

datatype SplatOp =
    SplatAddKey Entity real
  | SplatRemoveKey real
  | SplatMoveKey real real
  | SplatClear
  | SplatLoadKeyframes "TransformKey list"

fun SplatAnimTrack_apply :: "Timeline \<Rightarrow> SplatOp \<Rightarrow> SplatAnimTrack \<Rightarrow> SplatAnimTrack" where
  "SplatAnimTrack_apply tml (SplatAddKey entity fr) tr = fst (SplatAnimTrack_addKey tml entity fr tr)"
| "SplatAnimTrack_apply tml (SplatRemoveKey fr) tr = fst (SplatAnimTrack_removeKey tml fr tr)"
| "SplatAnimTrack_apply tml (SplatMoveKey a b) tr = stateAfter (SplatAnimTrack_moveKey tml a b tr)"
| "SplatAnimTrack_apply tml SplatClear tr = fst (SplatAnimTrack_clear tr)"
| "SplatAnimTrack_apply tml (SplatLoadKeyframes ks) tr = fst (SplatAnimTrack_loadKeyframes tml ks tr)"

fun SplatAnimTrack_run :: "(Timeline \<times> SplatOp) list \<Rightarrow> SplatAnimTrack \<Rightarrow> SplatAnimTrack" where
  "SplatAnimTrack_run [] tr = tr"
| "SplatAnimTrack_run ((tml, x) # ops) tr = SplatAnimTrack_run ops (SplatAnimTrack_apply tml x tr)"

fun SplatOp_loadsUnique :: "Timeline \<times> SplatOp \<Rightarrow> bool" where
  "SplatOp_loadsUnique (tml, SplatLoadKeyframes ks) = distinct (map TransformKey.frame ks)"
| "SplatOp_loadsUnique (tml, x) = True"

datatype CameraOp =
    CameraAddKey "CameraPose option" real
  | CameraRemoveKey real
  | CameraMoveKey real real
  | CameraClear
  | CameraAddPose DocPose
  | CameraLoadPoses "Pose list"

fun CameraAnimTrack_apply :: "Timeline \<Rightarrow> CameraOp \<Rightarrow> CameraAnimTrack \<Rightarrow> CameraAnimTrack" where
  "CameraAnimTrack_apply tml (CameraAddKey getPose fr) tr = fst (CameraAnimTrack_addKey tml getPose fr tr)"
| "CameraAnimTrack_apply tml (CameraRemoveKey fr) tr = fst (CameraAnimTrack_removeKey tml fr tr)"
| "CameraAnimTrack_apply tml (CameraMoveKey a b) tr = stateAfter (CameraAnimTrack_moveKey tml a b tr)"
| "CameraAnimTrack_apply tml CameraClear tr = fst (CameraAnimTrack_clear tr)"
| "CameraAnimTrack_apply tml (CameraAddPose pose) tr = CameraAnimTrack_addPose tml pose tr"
| "CameraAnimTrack_apply tml (CameraLoadPoses ps) tr = fst (CameraAnimTrack_loadPoses tml ps tr)"

fun CameraAnimTrack_run :: "(Timeline \<times> CameraOp) list \<Rightarrow> CameraAnimTrack \<Rightarrow> CameraAnimTrack" where
  "CameraAnimTrack_run [] tr = tr"
| "CameraAnimTrack_run ((tml, x) # ops) tr = CameraAnimTrack_run ops (CameraAnimTrack_apply tml x tr)"

fun CameraOp_loadsUnique :: "Timeline \<times> CameraOp \<Rightarrow> bool" where
  "CameraOp_loadsUnique (tml, CameraLoadPoses ps) = distinct (map Pose.frame ps)"
| "CameraOp_loadsUnique (tml, x) = True"

section \<open>Consistency of the interpolation state\<close>

text \<open>
  The closure of a splat track reads the two splines of the track and the captured
  \<open>rotationKeys\<close>. A track is consistent when a closure is present only together with
  both splines and at least one captured key, so that running the closure raises nothing.
\<close>

definition SplatAnimTrack_consistent :: "SplatAnimTrack \<Rightarrow> bool" where
  "SplatAnimTrack_consistent tr =
     (case SplatAnimTrack.onTimelineChange tr of
        None \<Rightarrow> True
      | Some c \<Rightarrow> positionSpline tr \<noteq> None \<and> scaleSpline tr \<noteq> None \<and> rotationKeys c \<noteq> [])"

section \<open>Properties of the array primitives\<close>

lemma findIndex_None_iff: "findIndex P xs = None \<longleftrightarrow> (\<forall>x \<in> set xs. \<not> P x)"
  by (induction xs) auto

lemma findIndex_Some_less: "findIndex P xs = Some i \<Longrightarrow> i < length xs"
  by (induction xs arbitrary: i) (auto split: if_splits)

lemma findIndex_Some_nth: "findIndex P xs = Some i \<Longrightarrow> P (xs ! i)"
  by (induction xs arbitrary: i) (auto split: if_splits)

lemma length_splice1: "i < length xs \<Longrightarrow> length (splice1 i xs) = length xs - 1"
  by (simp add: splice1_def)

lemma map_splice1: "map f (splice1 i xs) = splice1 i (map f xs)"
  by (simp add: splice1_def take_map drop_map)

lemma distinct_splice1:
  assumes "distinct xs"
  shows "distinct (splice1 i xs)"
proof -
  have "set (take i xs) \<inter> set (drop (Suc i) xs) = {}"
    using set_take_disj_set_drop_if_distinct [OF assms, of i "Suc i"] by simp
  with assms show ?thesis
    by (simp add: splice1_def)
qed

lemma nth_notin_splice1:
  assumes "distinct xs" and "i < length xs"
  shows "xs ! i \<notin> set (splice1 i xs)"
proof -
  have "xs = take i xs @ xs ! i # drop (Suc i) xs"
    using assms(2) by (simp add: id_take_nth_drop)
  then have "distinct (take i xs @ xs ! i # drop (Suc i) xs)"
    using assms(1) by simp
  then show ?thesis
    by (auto simp: splice1_def)
qed

lemma map_update_same_key:
  "i < length ks \<Longrightarrow> f (ks ! i) = v \<Longrightarrow> f k' = v \<Longrightarrow> map f (ks[i := k']) = map f ks"
  by (simp add: map_update list_update_same_conv)

lemma keyframes_rebuildSplines [simp]:
  "keyframes (SplatAnimTrack_rebuildSplines tml tr) = keyframes tr"
  by (simp add: SplatAnimTrack_rebuildSplines_def Let_def)

lemma poses_rebuildSpline [simp]:
  "poses (CameraAnimTrack_rebuildSpline tml tr) = poses tr"
  by (simp add: CameraAnimTrack_rebuildSpline_def Let_def)

section \<open>Frame uniqueness\<close>

text \<open>What the relabelling step of \<^verbatim>\<open>moveKey\<close> does to the list of frames, on
  the list with the occupant of the destination already removed.\<close>

lemma distinct_relabel:
  assumes "distinct fs" and "b \<notin> set fs"
  shows "distinct (fs[i := b])"
  using assms by (simp add: distinct_list_update)

lemma moved_frames_distinct:
  assumes d: "distinct fs"
  shows "distinct ((case findIndex (\<lambda>x. x = b) fs of None \<Rightarrow> fs | Some j \<Rightarrow> splice1 j fs)[i := b])"
proof (cases "findIndex (\<lambda>x. x = b) fs")
  case None
  then have "b \<notin> set fs" by (auto simp: findIndex_None_iff)
  with d None show ?thesis by (simp add: distinct_relabel)
next
  case (Some j)
  then have "j < length fs" and "fs ! j = b"
    using findIndex_Some_less findIndex_Some_nth [of "\<lambda>x. x = b"] by fastforce+
  then have "b \<notin> set (splice1 j fs)"
    using nth_notin_splice1 [OF d] by blast
  with d Some show ?thesis by (simp add: distinct_relabel distinct_splice1)
qed

lemma findIndex_map: "findIndex P (map f xs) = findIndex (\<lambda>x. P (f x)) xs"
  by (induction xs) auto

lemma SplatAnimTrack_addKey_distinct:
  assumes "distinct (SplatAnimTrack_keys tr)"
  shows "distinct (SplatAnimTrack_keys (fst (SplatAnimTrack_addKey tml entity fr tr)))"
proof (cases "findIndex (\<lambda>k. TransformKey.frame k = fr) (keyframes tr)")
  case None
  then have "fr \<notin> set (map TransformKey.frame (keyframes tr))"
    by (auto simp: findIndex_None_iff)
  with assms None show ?thesis
    by (simp add: SplatAnimTrack_addKey_def SplatAnimTrack_keys_def)
next
  case (Some i)
  then have "i < length (keyframes tr)" and "TransformKey.frame (keyframes tr ! i) = fr"
    using findIndex_Some_less findIndex_Some_nth [of "\<lambda>k. TransformKey.frame k = fr"] by fastforce+
  with assms Some show ?thesis
    by (simp add: SplatAnimTrack_addKey_def SplatAnimTrack_keys_def map_update_same_key)
qed

lemma SplatAnimTrack_removeKey_distinct:
  assumes "distinct (SplatAnimTrack_keys tr)"
  shows "distinct (SplatAnimTrack_keys (fst (SplatAnimTrack_removeKey tml fr tr)))"
  using assms
  by (simp add: SplatAnimTrack_removeKey_def SplatAnimTrack_keys_def map_splice1 distinct_splice1
           split: option.splits)

lemma SplatAnimTrack_moveKey_distinct:
  assumes "distinct (SplatAnimTrack_keys tr)"
  shows "distinct (SplatAnimTrack_keys (stateAfter (SplatAnimTrack_moveKey tml a b tr)))"
proof -
  let ?fs = "map TransformKey.frame (keyframes tr)"
  let ?ks = "case findIndex (\<lambda>k. TransformKey.frame k = b) (keyframes tr) of
               None \<Rightarrow> keyframes tr | Some j \<Rightarrow> splice1 j (keyframes tr)"
  have fs: "map TransformKey.frame ?ks =
              (case findIndex (\<lambda>x. x = b) ?fs of None \<Rightarrow> ?fs | Some j \<Rightarrow> splice1 j ?fs)"
    by (simp add: findIndex_map map_splice1 split: option.splits)
  have d1: "distinct (map TransformKey.frame ?ks)"
    using assms unfolding fs
    by (simp add: SplatAnimTrack_keys_def distinct_splice1 split: option.splits)
  have d2: "distinct (map TransformKey.frame (?ks[i := (?ks ! i)\<lparr>TransformKey.frame := b\<rparr>]))" for i
    using moved_frames_distinct [of ?fs b i] assms
    by (simp add: map_update fs SplatAnimTrack_keys_def)
  show ?thesis
    using assms d1 d2
    by (simp add: SplatAnimTrack_moveKey_def SplatAnimTrack_keys_def Let_def split: option.splits)
qed

section \<open>moveKey onto an occupied frame\<close>

text \<open>
  When the occupant of the destination comes after the source in store order, the
  splice leaves \<open>index\<close> valid and the move does what it is meant to do.
\<close>

lemma SplatAnimTrack_moveKey_occupant_later:
  "SplatAnimTrack_keys
     (stateAfter (SplatAnimTrack_moveKey tml 3 5
        (fst (SplatAnimTrack_addKey tml e2 5 (fst (SplatAnimTrack_addKey tml e1 3 SplatAnimTrack_new))))))
   = [5]"
  by (simp add: SplatAnimTrack_addKey_def SplatAnimTrack_moveKey_def SplatAnimTrack_new_def
        SplatAnimTrack_keys_def splice1_def Let_def)

text \<open>
  When the occupant comes before the source and a third key follows the source, the key
  after the source is relabelled instead: the source stays at its frame.
\<close>

lemma SplatAnimTrack_moveKey_relabels_neighbour:
  "SplatAnimTrack_keys
     (stateAfter (SplatAnimTrack_moveKey tml 3 5
        (fst (SplatAnimTrack_addKey tml e3 7
           (fst (SplatAnimTrack_addKey tml e2 3 (fst (SplatAnimTrack_addKey tml e1 5 SplatAnimTrack_new))))))))
   = [3, 5]"
  by (simp add: SplatAnimTrack_addKey_def SplatAnimTrack_moveKey_def SplatAnimTrack_new_def
        SplatAnimTrack_keys_def splice1_def Let_def)

text \<open>
  C1, at a store where the claim fails. A key is added at frame 5, then one at frame 3, so
  the store order is \<open>[5, 3]\<close>; then \<^verbatim>\<open>moveKey(3, 5)\<close> is called. The occupant of
  frame 5 is spliced out, the index of the source is then past the end of the array, and the
  call raises: no keyframe is at frame 5 afterwards, the source still sits at frame 3, and
  nothing is fired. This holds for every timeline and every state of the entity.
\<close>

theorem SplatAnimTrack_moveKey_stale_index:
  "SplatAnimTrack_keys
     (fst (SplatAnimTrack_addKey tml e2 3 (fst (SplatAnimTrack_addKey tml e1 5 SplatAnimTrack_new))))
   = [5, 3]
   \<and> isl (SplatAnimTrack_moveKey tml 3 5
        (fst (SplatAnimTrack_addKey tml e2 3 (fst (SplatAnimTrack_addKey tml e1 5 SplatAnimTrack_new)))))
   \<and> SplatAnimTrack_keys
        (stateAfter (SplatAnimTrack_moveKey tml 3 5
           (fst (SplatAnimTrack_addKey tml e2 3 (fst (SplatAnimTrack_addKey tml e1 5 SplatAnimTrack_new))))))
      = [3]
   \<and> effectsOf (SplatAnimTrack_moveKey tml 3 5
        (fst (SplatAnimTrack_addKey tml e2 3 (fst (SplatAnimTrack_addKey tml e1 5 SplatAnimTrack_new)))))
      = []"
  by (simp add: SplatAnimTrack_addKey_def SplatAnimTrack_moveKey_def SplatAnimTrack_new_def
        SplatAnimTrack_keys_def splice1_def Let_def)

section \<open>Frame uniqueness along sequences of operations\<close>

lemma SplatAnimTrack_loadKeyframes_keys:
  "SplatAnimTrack_keys (fst (SplatAnimTrack_loadKeyframes tml ks tr)) = map TransformKey.frame ks"
  by (simp add: SplatAnimTrack_loadKeyframes_def SplatAnimTrack_keys_def Let_def comp_def)

lemma SplatAnimTrack_apply_distinct:
  assumes "distinct (SplatAnimTrack_keys tr)" and "SplatOp_loadsUnique (tml, x)"
  shows "distinct (SplatAnimTrack_keys (SplatAnimTrack_apply tml x tr))"
proof (cases x)
  case (SplatAddKey entity fr)
  with assms show ?thesis using SplatAnimTrack_addKey_distinct by simp
next
  case (SplatRemoveKey fr)
  with assms show ?thesis using SplatAnimTrack_removeKey_distinct by simp
next
  case (SplatMoveKey a b)
  with assms show ?thesis using SplatAnimTrack_moveKey_distinct by simp
next
  case SplatClear
  then show ?thesis by (simp add: SplatAnimTrack_clear_def SplatAnimTrack_keys_def)
next
  case (SplatLoadKeyframes ks)
  with assms show ?thesis by (simp add: SplatAnimTrack_loadKeyframes_keys)
qed

lemma SplatAnimTrack_run_distinct:
  "distinct (SplatAnimTrack_keys tr) \<Longrightarrow> list_all SplatOp_loadsUnique ops
     \<Longrightarrow> distinct (SplatAnimTrack_keys (SplatAnimTrack_run ops tr))"
proof (induction ops arbitrary: tr)
  case Nil
  then show ?case by simp
next
  case (Cons o1 ops)
  obtain tml x where o1: "o1 = (tml, x)" by (cases o1)
  have "distinct (SplatAnimTrack_keys (SplatAnimTrack_apply tml x tr))"
    using Cons.prems o1 by (simp add: SplatAnimTrack_apply_distinct)
  then show ?case
    using Cons.IH Cons.prems(2) o1 by simp
qed

lemma CameraAnimTrack_addKey_distinct:
  assumes "distinct (CameraAnimTrack_keys tr)"
  shows "distinct (CameraAnimTrack_keys (fst (CameraAnimTrack_addKey tml getPose fr tr)))"
proof (cases getPose)
  case None
  with assms show ?thesis by (simp add: CameraAnimTrack_addKey_def)
next
  case (Some pose)
  show ?thesis
  proof (cases "findIndex (\<lambda>p. Pose.frame p = fr) (poses tr)")
    case None
    then have "fr \<notin> set (map Pose.frame (poses tr))"
      by (auto simp: findIndex_None_iff)
    with assms None Some show ?thesis
      by (simp add: CameraAnimTrack_addKey_def CameraAnimTrack_keys_def)
  next
    case (Some i)
    then have "i < length (poses tr)" and "Pose.frame (poses tr ! i) = fr"
      using findIndex_Some_less findIndex_Some_nth [of "\<lambda>p. Pose.frame p = fr"] by fastforce+
    with assms Some \<open>getPose = Some pose\<close> show ?thesis
      by (simp add: CameraAnimTrack_addKey_def CameraAnimTrack_keys_def map_update_same_key)
  qed
qed

lemma CameraAnimTrack_addPose_distinct:
  assumes "distinct (CameraAnimTrack_keys tr)"
  shows "distinct (CameraAnimTrack_keys (CameraAnimTrack_addPose tml pose tr))"
proof (cases "DocPose.frame pose")
  case None
  with assms show ?thesis by (simp add: CameraAnimTrack_addPose_def)
next
  case (Some fr)
  show ?thesis
  proof (cases "findIndex (\<lambda>q. Pose.frame q = fr) (poses tr)")
    case None
    then have "fr \<notin> set (map Pose.frame (poses tr))"
      by (auto simp: findIndex_None_iff)
    with assms None Some show ?thesis
      by (simp add: CameraAnimTrack_addPose_def CameraAnimTrack_keys_def)
  next
    case (Some i)
    then have "i < length (poses tr)" and "Pose.frame (poses tr ! i) = fr"
      using findIndex_Some_less findIndex_Some_nth [of "\<lambda>q. Pose.frame q = fr"] by fastforce+
    with assms Some \<open>DocPose.frame pose = Some fr\<close> show ?thesis
      by (simp add: CameraAnimTrack_addPose_def CameraAnimTrack_keys_def map_update_same_key)
  qed
qed

lemma CameraAnimTrack_removeKey_distinct:
  assumes "distinct (CameraAnimTrack_keys tr)"
  shows "distinct (CameraAnimTrack_keys (fst (CameraAnimTrack_removeKey tml fr tr)))"
  using assms
  by (simp add: CameraAnimTrack_removeKey_def CameraAnimTrack_keys_def map_splice1 distinct_splice1
           split: option.splits)

lemma CameraAnimTrack_moveKey_distinct:
  assumes "distinct (CameraAnimTrack_keys tr)"
  shows "distinct (CameraAnimTrack_keys (stateAfter (CameraAnimTrack_moveKey tml a b tr)))"
proof -
  let ?fs = "map Pose.frame (poses tr)"
  let ?ps = "case findIndex (\<lambda>p. Pose.frame p = b) (poses tr) of
               None \<Rightarrow> poses tr | Some j \<Rightarrow> splice1 j (poses tr)"
  have fs: "map Pose.frame ?ps =
              (case findIndex (\<lambda>x. x = b) ?fs of None \<Rightarrow> ?fs | Some j \<Rightarrow> splice1 j ?fs)"
    by (simp add: findIndex_map map_splice1 split: option.splits)
  have d1: "distinct (map Pose.frame ?ps)"
    using assms unfolding fs
    by (simp add: CameraAnimTrack_keys_def distinct_splice1 split: option.splits)
  have d2: "distinct (map Pose.frame (?ps[i := (?ps ! i)\<lparr>Pose.frame := b\<rparr>]))" for i
    using moved_frames_distinct [of ?fs b i] assms
    by (simp add: map_update fs CameraAnimTrack_keys_def)
  show ?thesis
    using assms d1 d2
    by (simp add: CameraAnimTrack_moveKey_def CameraAnimTrack_keys_def Let_def split: option.splits)
qed

lemma CameraAnimTrack_apply_distinct:
  assumes "distinct (CameraAnimTrack_keys tr)" and "CameraOp_loadsUnique (tml, x)"
  shows "distinct (CameraAnimTrack_keys (CameraAnimTrack_apply tml x tr))"
proof (cases x)
  case (CameraAddKey getPose fr)
  with assms show ?thesis using CameraAnimTrack_addKey_distinct by simp
next
  case (CameraRemoveKey fr)
  with assms show ?thesis using CameraAnimTrack_removeKey_distinct by simp
next
  case (CameraMoveKey a b)
  with assms show ?thesis using CameraAnimTrack_moveKey_distinct by simp
next
  case CameraClear
  then show ?thesis by (simp add: CameraAnimTrack_clear_def CameraAnimTrack_keys_def)
next
  case (CameraAddPose pose)
  with assms show ?thesis using CameraAnimTrack_addPose_distinct by simp
next
  case (CameraLoadPoses ps)
  with assms show ?thesis
    by (simp add: CameraAnimTrack_loadPoses_def CameraAnimTrack_keys_def Let_def)
qed

lemma CameraAnimTrack_run_distinct:
  "distinct (CameraAnimTrack_keys tr) \<Longrightarrow> list_all CameraOp_loadsUnique ops
     \<Longrightarrow> distinct (CameraAnimTrack_keys (CameraAnimTrack_run ops tr))"
proof (induction ops arbitrary: tr)
  case Nil
  then show ?case by simp
next
  case (Cons o1 ops)
  obtain tml x where o1: "o1 = (tml, x)" by (cases o1)
  have "distinct (CameraAnimTrack_keys (CameraAnimTrack_apply tml x tr))"
    using Cons.prems o1 by (simp add: CameraAnimTrack_apply_distinct)
  then show ?case
    using Cons.IH Cons.prems(2) o1 by simp
qed

text \<open>
  C4, as amended. Start from a new track and run any sequence of \<^verbatim>\<open>addKey\<close>,
  \<^verbatim>\<open>removeKey\<close>, \<^verbatim>\<open>moveKey\<close>, \<^verbatim>\<open>clear\<close>, \<^verbatim>\<open>addPose\<close> and bulk
  loads, each under any timeline, where every bulk load (\<^verbatim>\<open>loadKeyframes\<close>,
  \<^verbatim>\<open>loadPoses\<close>) is given data whose frames are pairwise different. Then the store
  holds at most one keyframe per frame: its list of frames is distinct. This holds for
  the transform track and for the pose track, also after a \<^verbatim>\<open>moveKey\<close> that raised.
\<close>

theorem frames_unique:
  "(list_all SplatOp_loadsUnique sops
      \<longrightarrow> distinct (SplatAnimTrack_keys (SplatAnimTrack_run sops SplatAnimTrack_new)))
   \<and> (list_all CameraOp_loadsUnique cops
      \<longrightarrow> distinct (CameraAnimTrack_keys (CameraAnimTrack_run cops CameraAnimTrack_new)))"
  using SplatAnimTrack_run_distinct [of SplatAnimTrack_new sops]
    CameraAnimTrack_run_distinct [of CameraAnimTrack_new cops]
  by (simp add: SplatAnimTrack_new_def CameraAnimTrack_new_def SplatAnimTrack_keys_def
        CameraAnimTrack_keys_def)

text \<open>The amended C4 at a sequence for each track: a bulk load of two keys with different
  frames, then a move of one onto the other.\<close>

theorem frames_unique_witness:
  "list_all SplatOp_loadsUnique
      [(\<lparr>timeline_frames = 100, timeline_frame = 0, timeline_smoothness = 1, timeline_frameRate = 30\<rparr>,
        SplatLoadKeyframes
          [\<lparr>TransformKey.frame = 5, position = (0, 0, 0), rotation = (0, 0, 0, 1), scale = (1, 1, 1)\<rparr>,
           \<lparr>TransformKey.frame = 3, position = (1, 0, 0), rotation = (0, 1, 0, 0), scale = (1, 1, 1)\<rparr>]),
       (\<lparr>timeline_frames = 100, timeline_frame = 0, timeline_smoothness = 1, timeline_frameRate = 30\<rparr>,
        SplatMoveKey 3 5)]
   \<and> distinct (SplatAnimTrack_keys (SplatAnimTrack_run
      [(\<lparr>timeline_frames = 100, timeline_frame = 0, timeline_smoothness = 1, timeline_frameRate = 30\<rparr>,
        SplatLoadKeyframes
          [\<lparr>TransformKey.frame = 5, position = (0, 0, 0), rotation = (0, 0, 0, 1), scale = (1, 1, 1)\<rparr>,
           \<lparr>TransformKey.frame = 3, position = (1, 0, 0), rotation = (0, 1, 0, 0), scale = (1, 1, 1)\<rparr>]),
       (\<lparr>timeline_frames = 100, timeline_frame = 0, timeline_smoothness = 1, timeline_frameRate = 30\<rparr>,
        SplatMoveKey 3 5)]
      SplatAnimTrack_new))
   \<and> list_all CameraOp_loadsUnique
      [(\<lparr>timeline_frames = 100, timeline_frame = 0, timeline_smoothness = 1, timeline_frameRate = 30\<rparr>,
        CameraLoadPoses
          [\<lparr>Pose.name = ''a'', frame = 0, position = (0, 0, 0), target = (0, 0, 1)\<rparr>,
           \<lparr>Pose.name = ''b'', frame = 9, position = (1, 0, 0), target = (0, 0, 1)\<rparr>]),
       (\<lparr>timeline_frames = 100, timeline_frame = 0, timeline_smoothness = 1, timeline_frameRate = 30\<rparr>,
        CameraMoveKey 0 9)]
   \<and> distinct (CameraAnimTrack_keys (CameraAnimTrack_run
      [(\<lparr>timeline_frames = 100, timeline_frame = 0, timeline_smoothness = 1, timeline_frameRate = 30\<rparr>,
        CameraLoadPoses
          [\<lparr>Pose.name = ''a'', frame = 0, position = (0, 0, 0), target = (0, 0, 1)\<rparr>,
           \<lparr>Pose.name = ''b'', frame = 9, position = (1, 0, 0), target = (0, 0, 1)\<rparr>]),
       (\<lparr>timeline_frames = 100, timeline_frame = 0, timeline_smoothness = 1, timeline_frameRate = 30\<rparr>,
        CameraMoveKey 0 9)]
      CameraAnimTrack_new))"
  using frames_unique
    [of "[(\<lparr>timeline_frames = 100, timeline_frame = 0, timeline_smoothness = 1, timeline_frameRate = 30\<rparr>,
        SplatLoadKeyframes
          [\<lparr>TransformKey.frame = 5, position = (0, 0, 0), rotation = (0, 0, 0, 1), scale = (1, 1, 1)\<rparr>,
           \<lparr>TransformKey.frame = 3, position = (1, 0, 0), rotation = (0, 1, 0, 0), scale = (1, 1, 1)\<rparr>]),
       (\<lparr>timeline_frames = 100, timeline_frame = 0, timeline_smoothness = 1, timeline_frameRate = 30\<rparr>,
        SplatMoveKey 3 5)]"
        "[(\<lparr>timeline_frames = 100, timeline_frame = 0, timeline_smoothness = 1, timeline_frameRate = 30\<rparr>,
        CameraLoadPoses
          [\<lparr>Pose.name = ''a'', frame = 0, position = (0, 0, 0), target = (0, 0, 1)\<rparr>,
           \<lparr>Pose.name = ''b'', frame = 9, position = (1, 0, 0), target = (0, 0, 1)\<rparr>]),
       (\<lparr>timeline_frames = 100, timeline_frame = 0, timeline_smoothness = 1, timeline_frameRate = 30\<rparr>,
        CameraMoveKey 0 9)]"]
  by simp

text \<open>
  C4 as stated fails: the bulk loads store what they are given. \<^verbatim>\<open>loadPoses\<close> with two
  poses at frame 0, on a new pose track, leaves a store with two keyframes at frame 0.
\<close>

theorem frames_unique_counterexample:
  "\<not> distinct (CameraAnimTrack_keys (fst (CameraAnimTrack_loadPoses
        \<lparr>timeline_frames = 100, timeline_frame = 0, timeline_smoothness = 1, timeline_frameRate = 30\<rparr>
        [\<lparr>Pose.name = ''a'', Pose.frame = 0, Pose.position = (0, 0, 0), Pose.target = (0, 0, 1)\<rparr>,
         \<lparr>Pose.name = ''b'', Pose.frame = 0, Pose.position = (1, 0, 0), Pose.target = (0, 0, 1)\<rparr>]
        CameraAnimTrack_new)))"
  by (simp add: CameraAnimTrack_loadPoses_def CameraAnimTrack_keys_def Let_def)

section \<open>Timeline changes and the interpolation state\<close>

text \<open>The handlers of \<^verbatim>\<open>timeline.frames\<close> and \<^verbatim>\<open>timeline.smoothness\<close> call
  \<^verbatim>\<open>evaluate\<close>, which runs the closure that is there: the track, its interpolation
  state included, is the same afterwards.\<close>

lemma on_timeline_frames_keeps_track: "fst (on_timeline_frames se tml tr) = tr"
  by (simp add: on_timeline_frames_def CameraAnimTrack_evaluate_def split: option.splits)

lemma on_timeline_smoothness_keeps_track: "fst (on_timeline_smoothness se tml tr) = tr"
  by (simp add: on_timeline_smoothness_def CameraAnimTrack_evaluate_def split: option.splits)

text \<open>
  C2, at a track where the claim fails. A pose track holds keys at frames 0 and 10, loaded
  while the duration is 20. The duration then becomes 5 and the handler of
  \<^verbatim>\<open>timeline.frames\<close> runs. The closure is still the one whose spline was fitted with
  period 20 through both keys; a rebuild under the new duration would leave no closure,
  since only the key at frame 0 is active. The next \<^verbatim>\<open>evaluate(2)\<close> samples the old
  spline and writes a pose to the camera: the key at frame 10, beyond the duration, still
  shapes the output.
\<close>

theorem timeline_frames_not_rebuilt:
  "CameraAnimTrack.onTimelineChange
     (fst (on_timeline_frames se
        \<lparr>timeline_frames = 5, timeline_frame = 2, timeline_smoothness = 1, timeline_frameRate = 30\<rparr>
        (fst (CameraAnimTrack_loadPoses
           \<lparr>timeline_frames = 20, timeline_frame = 2, timeline_smoothness = 1, timeline_frameRate = 30\<rparr>
           [\<lparr>Pose.name = ''a'', frame = 0, position = (0, 0, 0), target = (0, 0, 1)\<rparr>,
            \<lparr>Pose.name = ''b'', frame = 10, position = (4, 0, 0), target = (0, 0, 1)\<rparr>]
           CameraAnimTrack_new))))
   = Some (fromPointsLooping 20 [0, 10] [0, 0, 0, 0, 0, 1, 4, 0, 0, 0, 0, 1] 1)
   \<and> CameraAnimTrack.onTimelineChange
     (CameraAnimTrack_rebuildSpline
        \<lparr>timeline_frames = 5, timeline_frame = 2, timeline_smoothness = 1, timeline_frameRate = 30\<rparr>
        (fst (CameraAnimTrack_loadPoses
           \<lparr>timeline_frames = 20, timeline_frame = 2, timeline_smoothness = 1, timeline_frameRate = 30\<rparr>
           [\<lparr>Pose.name = ''a'', frame = 0, position = (0, 0, 0), target = (0, 0, 1)\<rparr>,
            \<lparr>Pose.name = ''b'', frame = 10, position = (4, 0, 0), target = (0, 0, 1)\<rparr>]
           CameraAnimTrack_new)))
   = None
   \<and> snd (CameraAnimTrack_evaluate se 2
     (fst (on_timeline_frames se
        \<lparr>timeline_frames = 5, timeline_frame = 2, timeline_smoothness = 1, timeline_frameRate = 30\<rparr>
        (fst (CameraAnimTrack_loadPoses
           \<lparr>timeline_frames = 20, timeline_frame = 2, timeline_smoothness = 1, timeline_frameRate = 30\<rparr>
           [\<lparr>Pose.name = ''a'', frame = 0, position = (0, 0, 0), target = (0, 0, 1)\<rparr>,
            \<lparr>Pose.name = ''b'', frame = 10, position = (4, 0, 0), target = (0, 0, 1)\<rparr>]
           CameraAnimTrack_new)))))
   = CameraAnimTrack_closure se
       (fromPointsLooping 20 [0, 10] [0, 0, 0, 0, 0, 1, 4, 0, 0, 0, 0, 1] 1) 2"
  by (simp add: on_timeline_frames_keeps_track CameraAnimTrack_loadPoses_def
        CameraAnimTrack_rebuildSpline_def CameraAnimTrack_new_def CameraAnimTrack_evaluate_def Let_def)

section \<open>Operations that complete as no-ops, and the one that raises\<close>

lemma SplatAnimTrack_removeKey_absent:
  "fr \<notin> set (SplatAnimTrack_keys tr) \<Longrightarrow> SplatAnimTrack_removeKey tml fr tr = (tr, [])"
proof -
  assume "fr \<notin> set (SplatAnimTrack_keys tr)"
  then have "findIndex (\<lambda>k. TransformKey.frame k = fr) (keyframes tr) = None"
    by (auto simp: findIndex_None_iff SplatAnimTrack_keys_def)
  then show ?thesis by (simp add: SplatAnimTrack_removeKey_def)
qed

lemma SplatAnimTrack_moveKey_absent:
  "a \<notin> set (SplatAnimTrack_keys tr) \<Longrightarrow> SplatAnimTrack_moveKey tml a b tr = Inr (tr, [])"
proof -
  assume "a \<notin> set (SplatAnimTrack_keys tr)"
  then have "findIndex (\<lambda>k. TransformKey.frame k = a) (keyframes tr) = None"
    by (auto simp: findIndex_None_iff SplatAnimTrack_keys_def)
  then show ?thesis by (simp add: SplatAnimTrack_moveKey_def)
qed

lemma CameraAnimTrack_removeKey_absent:
  "fr \<notin> set (CameraAnimTrack_keys tr) \<Longrightarrow> CameraAnimTrack_removeKey tml fr tr = (tr, [])"
proof -
  assume "fr \<notin> set (CameraAnimTrack_keys tr)"
  then have "findIndex (\<lambda>p. Pose.frame p = fr) (poses tr) = None"
    by (auto simp: findIndex_None_iff CameraAnimTrack_keys_def)
  then show ?thesis by (simp add: CameraAnimTrack_removeKey_def)
qed

lemma CameraAnimTrack_moveKey_absent:
  "a \<notin> set (CameraAnimTrack_keys tr) \<Longrightarrow> CameraAnimTrack_moveKey tml a b tr = Inr (tr, [])"
proof -
  assume "a \<notin> set (CameraAnimTrack_keys tr)"
  then have "findIndex (\<lambda>p. Pose.frame p = a) (poses tr) = None"
    by (auto simp: findIndex_None_iff CameraAnimTrack_keys_def)
  then show ?thesis by (simp add: CameraAnimTrack_moveKey_def)
qed

lemma CameraAnimTrack_addKey_unavailable:
  "CameraAnimTrack_addKey tml None fr tr = (tr, [])"
  by (simp add: CameraAnimTrack_addKey_def)

text \<open>A move onto a free frame never raises.\<close>

lemma SplatAnimTrack_moveKey_free_destination:
  assumes "b \<notin> set (SplatAnimTrack_keys tr)"
  shows "\<not> isl (SplatAnimTrack_moveKey tml a b tr)"
proof -
  have none: "findIndex (\<lambda>k. TransformKey.frame k = b) (keyframes tr) = None"
    using assms by (auto simp: findIndex_None_iff SplatAnimTrack_keys_def)
  show ?thesis
  proof (cases "findIndex (\<lambda>k. TransformKey.frame k = a) (keyframes tr)")
    case None
    then show ?thesis by (simp add: SplatAnimTrack_moveKey_def)
  next
    case (Some i)
    then have "i < length (keyframes tr)" by (rule findIndex_Some_less)
    with Some none show ?thesis by (simp add: SplatAnimTrack_moveKey_def Let_def)
  qed
qed

text \<open>
  C3, at a state where the claim fails. The camera is selected; on its track
  \<^verbatim>\<open>addKey(5)\<close> and then \<^verbatim>\<open>addKey(3)\<close> were called with a pose available. The
  dispatched \<^verbatim>\<open>track.moveKey(3, 5)\<close> raises, for every timeline and every state of the
  rest of the world: it is the use of the source index after the splice in
  \<^verbatim>\<open>moveKey\<close>.
\<close>

theorem track_moveKey_raises:
  "isl (track_moveKey 3 5
     (w\<lparr>selection := Some \<lparr>type = ElementType.camera, animTrack = None\<rparr>,
        camera_animTrack :=
          fst (CameraAnimTrack_addKey tml (Some pose) 3
            (fst (CameraAnimTrack_addKey tml (Some pose) 5 CameraAnimTrack_new)))\<rparr>))"
  by (simp add: track_moveKey_def getActiveTrack_def selection_isCamera_def
        CameraAnimTrack_addKey_def CameraAnimTrack_moveKey_def CameraAnimTrack_new_def
        splice1_def Let_def)

section \<open>What evaluate does\<close>

text \<open>Every operation keeps a splat track consistent, so \<^verbatim>\<open>evaluate\<close> raises nothing
  on a track that was reached from a new one.\<close>

lemma consistent_rebuildSplines: "SplatAnimTrack_consistent (SplatAnimTrack_rebuildSplines tml tr)"
proof -
  let ?ordered = "sort_key TransformKey.frame
                    (filter (\<lambda>k. TransformKey.frame k < timeline_frames tml) (keyframes tr))"
  show ?thesis
  proof (cases "length ?ordered < 2")
    case True
    then show ?thesis
      by (simp add: SplatAnimTrack_consistent_def SplatAnimTrack_rebuildSplines_def Let_def)
  next
    case False
    have "?ordered \<noteq> []"
    proof
      assume "?ordered = []"
      then have "length ?ordered = 0" by (simp only: list.size)
      with False show False by linarith
    qed
    with False show ?thesis
      by (simp add: SplatAnimTrack_consistent_def SplatAnimTrack_rebuildSplines_def Let_def)
  qed
qed

lemma consistent_keyframes_update:
  "SplatAnimTrack_consistent tr \<Longrightarrow> SplatAnimTrack_consistent (tr\<lparr>keyframes := ks\<rparr>)"
  by (simp add: SplatAnimTrack_consistent_def split: option.splits)

lemma SplatAnimTrack_apply_consistent:
  "SplatAnimTrack_consistent tr \<Longrightarrow> SplatAnimTrack_consistent (SplatAnimTrack_apply tml x tr)"
proof (cases x)
  case (SplatAddKey entity fr)
  then show ?thesis
    by (simp add: SplatAnimTrack_addKey_def consistent_rebuildSplines Let_def split: option.splits)
next
  case (SplatRemoveKey fr)
  assume "SplatAnimTrack_consistent tr"
  with SplatRemoveKey show ?thesis
    by (simp add: SplatAnimTrack_removeKey_def consistent_rebuildSplines split: option.splits)
next
  case (SplatMoveKey a b)
  assume "SplatAnimTrack_consistent tr"
  with SplatMoveKey show ?thesis
    by (simp add: SplatAnimTrack_moveKey_def consistent_rebuildSplines consistent_keyframes_update
          Let_def split: option.splits)
next
  case SplatClear
  then show ?thesis by (simp add: SplatAnimTrack_clear_def SplatAnimTrack_consistent_def)
next
  case (SplatLoadKeyframes ks)
  then show ?thesis
    by (simp add: SplatAnimTrack_loadKeyframes_def consistent_rebuildSplines Let_def)
qed

lemma SplatAnimTrack_run_consistent:
  "SplatAnimTrack_consistent tr \<Longrightarrow> SplatAnimTrack_consistent (SplatAnimTrack_run ops tr)"
proof (induction ops arbitrary: tr)
  case Nil
  then show ?case by simp
next
  case (Cons o1 ops)
  then show ?case by (cases o1) (simp add: SplatAnimTrack_apply_consistent)
qed

lemma SplatAnimTrack_closure_consistent:
  assumes "SplatAnimTrack_consistent tr" and "SplatAnimTrack.onTimelineChange tr = Some c"
  shows "\<not> isl (SplatAnimTrack_closure se sl tr c fr)"
proof -
  from assms obtain ps ss where "positionSpline tr = Some ps" "scaleSpline tr = Some ss"
    "rotationKeys c \<noteq> []"
    by (auto simp: SplatAnimTrack_consistent_def)
  then show ?thesis
    by (simp add: SplatAnimTrack_closure_def Let_def split: prod.splits)
qed

lemma SplatAnimTrack_evaluate_returns:
  assumes "SplatAnimTrack_consistent tr"
  shows "\<not> isl (SplatAnimTrack_evaluate se sl fr tr)"
proof (cases "SplatAnimTrack.onTimelineChange tr")
  case None
  then show ?thesis by (simp add: SplatAnimTrack_evaluate_def)
next
  case (Some c)
  with SplatAnimTrack_closure_consistent [OF assms Some, of se sl fr] show ?thesis
    by (cases "SplatAnimTrack_closure se sl tr c fr") (simp_all add: SplatAnimTrack_evaluate_def)
qed

lemma SplatAnimTrack_closure_effects:
  "SplatAnimTrack_closure se sl tr c fr = Inr effs
     \<Longrightarrow> length effs = 1 \<and> list_all isTargetWrite effs \<and> filter isStructural effs = []"
  by (auto simp: SplatAnimTrack_closure_def Let_def split: option.splits if_splits prod.splits)

lemma SplatAnimTrack_evaluate_reachable:
  "\<not> isl (SplatAnimTrack_evaluate se sl fr (SplatAnimTrack_run ops SplatAnimTrack_new))"
  by (rule SplatAnimTrack_evaluate_returns, rule SplatAnimTrack_run_consistent)
     (simp add: SplatAnimTrack_consistent_def SplatAnimTrack_new_def)

text \<open>
  C10. For every track (transform or pose), every frame and every state of the track,
  \<^verbatim>\<open>evaluate\<close> leaves the track as it was, the keyframe store included; everything it
  emits is a write to the bound target, at most one, and none of it is a structural
  notification (\<^verbatim>\<open>keyAdded\<close>, \<^verbatim>\<open>keyUpdated\<close>, \<^verbatim>\<open>keyRemoved\<close>,
  \<^verbatim>\<open>keyMoved\<close>, \<^verbatim>\<open>keysCleared\<close>, \<^verbatim>\<open>keysLoaded\<close>).
\<close>

theorem evaluate_only_writes_target:
  "stateAfter (SplatAnimTrack_evaluate se sl fr tr) = tr
   \<and> list_all isTargetWrite (effectsOf (SplatAnimTrack_evaluate se sl fr tr))
   \<and> filter isStructural (effectsOf (SplatAnimTrack_evaluate se sl fr tr)) = []
   \<and> length (effectsOf (SplatAnimTrack_evaluate se sl fr tr)) \<le> 1
   \<and> fst (CameraAnimTrack_evaluate se fr ctr) = ctr
   \<and> list_all isTargetWrite (snd (CameraAnimTrack_evaluate se fr ctr))
   \<and> filter isStructural (snd (CameraAnimTrack_evaluate se fr ctr)) = []
   \<and> length (snd (CameraAnimTrack_evaluate se fr ctr)) \<le> 1"
proof -
  have splat: "stateAfter (SplatAnimTrack_evaluate se sl fr tr) = tr
    \<and> list_all isTargetWrite (effectsOf (SplatAnimTrack_evaluate se sl fr tr))
    \<and> filter isStructural (effectsOf (SplatAnimTrack_evaluate se sl fr tr)) = []
    \<and> length (effectsOf (SplatAnimTrack_evaluate se sl fr tr)) \<le> 1"
  proof (cases "SplatAnimTrack.onTimelineChange tr")
    case None
    then show ?thesis by (simp add: SplatAnimTrack_evaluate_def)
  next
    case (Some c)
    show ?thesis
    proof (cases "SplatAnimTrack_closure se sl tr c fr")
      case (Inl e)
      with Some show ?thesis by (simp add: SplatAnimTrack_evaluate_def)
    next
      case (Inr effs)
      then have "length effs = 1 \<and> list_all isTargetWrite effs \<and> filter isStructural effs = []"
        by (rule SplatAnimTrack_closure_effects)
      with Some Inr show ?thesis by (simp add: SplatAnimTrack_evaluate_def)
    qed
  qed
  have cam: "fst (CameraAnimTrack_evaluate se fr ctr) = ctr
    \<and> list_all isTargetWrite (snd (CameraAnimTrack_evaluate se fr ctr))
    \<and> filter isStructural (snd (CameraAnimTrack_evaluate se fr ctr)) = []
    \<and> length (snd (CameraAnimTrack_evaluate se fr ctr)) \<le> 1"
    by (simp add: CameraAnimTrack_evaluate_def CameraAnimTrack_closure_def Let_def
          split: option.splits)
  from splat cam show ?thesis by simp
qed

text \<open>
  C7. When fewer than two keyframes of the store are active (frame below the duration) at
  a rebuild, and after \<^verbatim>\<open>clear\<close>, \<^verbatim>\<open>evaluate\<close> at any frame emits nothing, so it
  writes nothing to the bound target, and it returns the track unchanged: every later
  \<^verbatim>\<open>evaluate\<close> finds the same state, until a mutation rebuilds it. For the transform
  track and the pose track.
\<close>

theorem evaluate_below_two_active_keys:
  "(length (filter (\<lambda>k. TransformKey.frame k < timeline_frames tml) (keyframes tr)) < 2
      \<longrightarrow> SplatAnimTrack_evaluate se sl fr (SplatAnimTrack_rebuildSplines tml tr)
            = Inr (SplatAnimTrack_rebuildSplines tml tr, []))
   \<and> SplatAnimTrack_evaluate se sl fr (fst (SplatAnimTrack_clear tr))
       = Inr (fst (SplatAnimTrack_clear tr), [])
   \<and> (length (filter (\<lambda>a. Pose.frame a < timeline_frames tml) (poses ctr)) < 2
      \<longrightarrow> CameraAnimTrack_evaluate se fr (CameraAnimTrack_rebuildSpline tml ctr)
            = (CameraAnimTrack_rebuildSpline tml ctr, []))
   \<and> CameraAnimTrack_evaluate se fr (fst (CameraAnimTrack_clear ctr))
       = (fst (CameraAnimTrack_clear ctr), [])"
  by (simp add: SplatAnimTrack_evaluate_def SplatAnimTrack_rebuildSplines_def
        SplatAnimTrack_clear_def CameraAnimTrack_evaluate_def CameraAnimTrack_rebuildSpline_def
        CameraAnimTrack_clear_def Let_def)

text \<open>C7 at a transform track with one active key (frame 2) and one beyond the duration
  (frame 50, duration 10), and at a pose track whose only key sits at the duration.\<close>

theorem evaluate_below_two_active_keys_witness:
  "length (filter (\<lambda>k. TransformKey.frame k < timeline_frames \<lparr>timeline_frames = 10, timeline_frame = 0, timeline_smoothness = 1, timeline_frameRate = 30\<rparr>)
       (keyframes \<lparr>keyframes =
          [\<lparr>TransformKey.frame = 2, position = (0, 0, 0), rotation = (0, 0, 0, 1), scale = (1, 1, 1)\<rparr>,
           \<lparr>TransformKey.frame = 50, position = (1, 0, 0), rotation = (0, 1, 0, 0), scale = (1, 1, 1)\<rparr>],
        positionSpline = None, scaleSpline = None, SplatAnimTrack.onTimelineChange = None\<rparr>)) < 2
   \<and> SplatAnimTrack_evaluate (\<lambda>s f i. 0) (\<lambda>p q t. p) 3
       (SplatAnimTrack_rebuildSplines \<lparr>timeline_frames = 10, timeline_frame = 0, timeline_smoothness = 1, timeline_frameRate = 30\<rparr>
          \<lparr>keyframes =
          [\<lparr>TransformKey.frame = 2, position = (0, 0, 0), rotation = (0, 0, 0, 1), scale = (1, 1, 1)\<rparr>,
           \<lparr>TransformKey.frame = 50, position = (1, 0, 0), rotation = (0, 1, 0, 0), scale = (1, 1, 1)\<rparr>],
        positionSpline = None, scaleSpline = None, SplatAnimTrack.onTimelineChange = None\<rparr>)
     = Inr (SplatAnimTrack_rebuildSplines \<lparr>timeline_frames = 10, timeline_frame = 0, timeline_smoothness = 1, timeline_frameRate = 30\<rparr>
          \<lparr>keyframes =
          [\<lparr>TransformKey.frame = 2, position = (0, 0, 0), rotation = (0, 0, 0, 1), scale = (1, 1, 1)\<rparr>,
           \<lparr>TransformKey.frame = 50, position = (1, 0, 0), rotation = (0, 1, 0, 0), scale = (1, 1, 1)\<rparr>],
        positionSpline = None, scaleSpline = None, SplatAnimTrack.onTimelineChange = None\<rparr>, [])
   \<and> length (filter (\<lambda>a. Pose.frame a < timeline_frames \<lparr>timeline_frames = 10, timeline_frame = 0, timeline_smoothness = 1, timeline_frameRate = 30\<rparr>)
       (poses \<lparr>poses = [\<lparr>Pose.name = ''camera_0'', frame = 10, position = (0, 1, 2), target = (0, 0, 0)\<rparr>],
        CameraAnimTrack.onTimelineChange = None\<rparr>)) < 2
   \<and> CameraAnimTrack_evaluate (\<lambda>s f i. 0) 3
       (CameraAnimTrack_rebuildSpline \<lparr>timeline_frames = 10, timeline_frame = 0, timeline_smoothness = 1, timeline_frameRate = 30\<rparr>
          \<lparr>poses = [\<lparr>Pose.name = ''camera_0'', frame = 10, position = (0, 1, 2), target = (0, 0, 0)\<rparr>],
        CameraAnimTrack.onTimelineChange = None\<rparr>)
     = (CameraAnimTrack_rebuildSpline \<lparr>timeline_frames = 10, timeline_frame = 0, timeline_smoothness = 1, timeline_frameRate = 30\<rparr>
          \<lparr>poses = [\<lparr>Pose.name = ''camera_0'', frame = 10, position = (0, 1, 2), target = (0, 0, 0)\<rparr>],
        CameraAnimTrack.onTimelineChange = None\<rparr>, [])"
  using evaluate_below_two_active_keys
    [where tml = "\<lparr>timeline_frames = 10, timeline_frame = 0, timeline_smoothness = 1, timeline_frameRate = 30\<rparr>"
       and tr = "\<lparr>keyframes =
          [\<lparr>TransformKey.frame = 2, position = (0, 0, 0), rotation = (0, 0, 0, 1), scale = (1, 1, 1)\<rparr>,
           \<lparr>TransformKey.frame = 50, position = (1, 0, 0), rotation = (0, 1, 0, 0), scale = (1, 1, 1)\<rparr>],
        positionSpline = None, scaleSpline = None, SplatAnimTrack.onTimelineChange = None\<rparr>"
       and ctr = "\<lparr>poses = [\<lparr>Pose.name = ''camera_0'', frame = 10, position = (0, 1, 2), target = (0, 0, 0)\<rparr>],
        CameraAnimTrack.onTimelineChange = None\<rparr>"
       and se = "(\<lambda>s f i. 0)" and sl = "(\<lambda>p q t. p)" and fr = 3]
  by simp

section \<open>The track resolver and the dispatched operations\<close>

lemma track_handlers_resolved:
  assumes "getActiveTrack w = Some t"
  shows "track_keys w = AnimTrack_keys t w"
    and "track_addKey None w = AnimTrack_addKey t (timeline_frame (timeline w)) w"
    and "track_removeKey None w = AnimTrack_removeKey t (timeline_frame (timeline w)) w"
    and "track_addKey (Some f) w = AnimTrack_addKey t f w"
    and "track_removeKey (Some f) w = AnimTrack_removeKey t f w"
    and "track_moveKey a b w = AnimTrack_moveKey t a b w"
  using assms
  by (simp_all add: track_keys_def track_addKey_def track_removeKey_def track_moveKey_def)

lemma getActiveTrack_camera:
  "selection w = Some el \<Longrightarrow> type el = ElementType.camera \<Longrightarrow> getActiveTrack w = Some CameraTrackRef"
  by (simp add: getActiveTrack_def selection_isCamera_def)

text \<open>
  C8. When the selected element is the camera, \<^verbatim>\<open>getActiveTrack\<close> returns the camera's
  track, whatever else the selected element carries; \<^verbatim>\<open>track.keys\<close> reads that track,
  and a dispatched \<^verbatim>\<open>addKey\<close> or \<^verbatim>\<open>removeKey\<close> without a frame is that track's
  \<^verbatim>\<open>addKey\<close> or \<^verbatim>\<open>removeKey\<close> at the frame of the timeline cursor: the camera
  track afterwards and the notifications fired are those of the track's method. When no
  track is resolved, \<^verbatim>\<open>track.keys\<close> is the empty list and the dispatched
  \<^verbatim>\<open>addKey\<close>, \<^verbatim>\<open>removeKey\<close> and \<^verbatim>\<open>moveKey\<close> leave the world as it is and fire
  nothing. Whatever track \<open>t\<close> is resolved, every handler is the method of \<open>t\<close>:
  with a frame given, at that frame; with the frame omitted, at the frame of the cursor.
\<close>

theorem resolver_dispatch:
  "(selection w = Some el \<and> type el = ElementType.camera
      \<longrightarrow> getActiveTrack w = Some CameraTrackRef
          \<and> track_keys w = CameraAnimTrack_keys (camera_animTrack w)
          \<and> camera_animTrack (fst (track_addKey None w))
              = fst (CameraAnimTrack_addKey (timeline w) (camera_getPose w)
                       (timeline_frame (timeline w)) (camera_animTrack w))
          \<and> snd (track_addKey None w)
              = snd (CameraAnimTrack_addKey (timeline w) (camera_getPose w)
                       (timeline_frame (timeline w)) (camera_animTrack w))
          \<and> camera_animTrack (fst (track_removeKey None w))
              = fst (CameraAnimTrack_removeKey (timeline w)
                       (timeline_frame (timeline w)) (camera_animTrack w))
          \<and> snd (track_removeKey None w)
              = snd (CameraAnimTrack_removeKey (timeline w)
                       (timeline_frame (timeline w)) (camera_animTrack w)))
   \<and> (getActiveTrack w' = None
      \<longrightarrow> track_keys w' = [] \<and> track_addKey fr w' = (w', []) \<and> track_removeKey fr w' = (w', [])
          \<and> track_moveKey a b w' = Inr (w', []))
   \<and> (getActiveTrack w'' = Some t
      \<longrightarrow> track_keys w'' = AnimTrack_keys t w''
          \<and> track_addKey None w'' = AnimTrack_addKey t (timeline_frame (timeline w'')) w''
          \<and> track_removeKey None w'' = AnimTrack_removeKey t (timeline_frame (timeline w'')) w''
          \<and> track_addKey (Some f) w'' = AnimTrack_addKey t f w''
          \<and> track_removeKey (Some f) w'' = AnimTrack_removeKey t f w''
          \<and> track_moveKey c d w'' = AnimTrack_moveKey t c d w'')
   \<and> track_addKey None w'' = track_addKey (Some (timeline_frame (timeline w''))) w''
   \<and> track_removeKey None w'' = track_removeKey (Some (timeline_frame (timeline w''))) w''"
proof -
  have cam: "selection w = Some el \<and> type el = ElementType.camera
      \<longrightarrow> getActiveTrack w = Some CameraTrackRef
          \<and> track_keys w = CameraAnimTrack_keys (camera_animTrack w)
          \<and> camera_animTrack (fst (track_addKey None w))
              = fst (CameraAnimTrack_addKey (timeline w) (camera_getPose w)
                       (timeline_frame (timeline w)) (camera_animTrack w))
          \<and> snd (track_addKey None w)
              = snd (CameraAnimTrack_addKey (timeline w) (camera_getPose w)
                       (timeline_frame (timeline w)) (camera_animTrack w))
          \<and> camera_animTrack (fst (track_removeKey None w))
              = fst (CameraAnimTrack_removeKey (timeline w)
                       (timeline_frame (timeline w)) (camera_animTrack w))
          \<and> snd (track_removeKey None w)
              = snd (CameraAnimTrack_removeKey (timeline w)
                       (timeline_frame (timeline w)) (camera_animTrack w))"
  proof
    assume sel: "selection w = Some el \<and> type el = ElementType.camera"
    then have act: "getActiveTrack w = Some CameraTrackRef"
      by (simp add: getActiveTrack_camera)
    show "getActiveTrack w = Some CameraTrackRef
          \<and> track_keys w = CameraAnimTrack_keys (camera_animTrack w)
          \<and> camera_animTrack (fst (track_addKey None w))
              = fst (CameraAnimTrack_addKey (timeline w) (camera_getPose w)
                       (timeline_frame (timeline w)) (camera_animTrack w))
          \<and> snd (track_addKey None w)
              = snd (CameraAnimTrack_addKey (timeline w) (camera_getPose w)
                       (timeline_frame (timeline w)) (camera_animTrack w))
          \<and> camera_animTrack (fst (track_removeKey None w))
              = fst (CameraAnimTrack_removeKey (timeline w)
                       (timeline_frame (timeline w)) (camera_animTrack w))
          \<and> snd (track_removeKey None w)
              = snd (CameraAnimTrack_removeKey (timeline w)
                       (timeline_frame (timeline w)) (camera_animTrack w))"
      using act by (simp add: track_handlers_resolved [OF act] case_prod_unfold Let_def)
  qed
  have none: "getActiveTrack w' = None
      \<longrightarrow> track_keys w' = [] \<and> track_addKey fr w' = (w', []) \<and> track_removeKey fr w' = (w', [])
          \<and> track_moveKey a b w' = Inr (w', [])"
    by (simp add: track_keys_def track_addKey_def track_removeKey_def track_moveKey_def)
  have res: "getActiveTrack w'' = Some t
      \<longrightarrow> track_keys w'' = AnimTrack_keys t w''
          \<and> track_addKey None w'' = AnimTrack_addKey t (timeline_frame (timeline w'')) w''
          \<and> track_removeKey None w'' = AnimTrack_removeKey t (timeline_frame (timeline w'')) w''
          \<and> track_addKey (Some f) w'' = AnimTrack_addKey t f w''
          \<and> track_removeKey (Some f) w'' = AnimTrack_removeKey t f w''
          \<and> track_moveKey c d w'' = AnimTrack_moveKey t c d w''"
    by (simp add: track_handlers_resolved)
  have dflt: "track_addKey None w'' = track_addKey (Some (timeline_frame (timeline w''))) w''"
    "track_removeKey None w'' = track_removeKey (Some (timeline_frame (timeline w''))) w''"
    by (cases "getActiveTrack w''"; simp add: track_addKey_def track_removeKey_def)+
  from cam none res dflt show ?thesis by blast
qed

text \<open>
  C8 at four worlds, the cursor at frame 7 and a camera pose available. With the camera
  selected (the element carrying a splat's track as well) and an empty camera track,
  \<^verbatim>\<open>track.addKey\<close> without a frame leaves the camera track with one key at frame 7 and
  fires \<^verbatim>\<open>keyAdded(7)\<close>. With the camera selected and keys at frames 3 and 7,
  \<^verbatim>\<open>track.removeKey\<close> without a frame leaves the key at frame 3 and fires
  \<^verbatim>\<open>keyRemoved(7)\<close>. With a splat selected whose \<^verbatim>\<open>animTrack\<close> is \<^verbatim>\<open>null\<close>, no
  track is resolved and nothing happens. With a splat selected that has a track (number
  2), \<^verbatim>\<open>track.addKey\<close> without a frame keys that track at frame 7.
\<close>

theorem resolver_dispatch_witness:
  "selection \<lparr>timeline = \<lparr>timeline_frames = 20, timeline_frame = 7, timeline_smoothness = 1, timeline_frameRate = 30\<rparr>,
        selection = Some \<lparr>type = ElementType.camera, animTrack = Some (Some (SplatTrackRef 0))\<rparr>,
        camera_getPose = Some \<lparr>CameraPose.position = (0, 1, 2), target = (0, 0, 0)\<rparr>,
        camera_animTrack = CameraAnimTrack_new,
        splat_animTrack = (\<lambda>i. SplatAnimTrack_new),
        splat_entity = (\<lambda>i. \<lparr>localPosition = (0, 0, 0), localRotation = (0, 0, 0, 1), localScale = (1, 1, 1)\<rparr>)\<rparr> = Some \<lparr>type = ElementType.camera, animTrack = Some (Some (SplatTrackRef 0))\<rparr>
   \<and> type \<lparr>type = ElementType.camera, animTrack = Some (Some (SplatTrackRef 0))\<rparr> = ElementType.camera
   \<and> getActiveTrack \<lparr>timeline = \<lparr>timeline_frames = 20, timeline_frame = 7, timeline_smoothness = 1, timeline_frameRate = 30\<rparr>,
        selection = Some \<lparr>type = ElementType.camera, animTrack = Some (Some (SplatTrackRef 0))\<rparr>,
        camera_getPose = Some \<lparr>CameraPose.position = (0, 1, 2), target = (0, 0, 0)\<rparr>,
        camera_animTrack = CameraAnimTrack_new,
        splat_animTrack = (\<lambda>i. SplatAnimTrack_new),
        splat_entity = (\<lambda>i. \<lparr>localPosition = (0, 0, 0), localRotation = (0, 0, 0, 1), localScale = (1, 1, 1)\<rparr>)\<rparr> = Some CameraTrackRef
   \<and> CameraAnimTrack_keys (camera_animTrack (fst (track_addKey None \<lparr>timeline = \<lparr>timeline_frames = 20, timeline_frame = 7, timeline_smoothness = 1, timeline_frameRate = 30\<rparr>,
        selection = Some \<lparr>type = ElementType.camera, animTrack = Some (Some (SplatTrackRef 0))\<rparr>,
        camera_getPose = Some \<lparr>CameraPose.position = (0, 1, 2), target = (0, 0, 0)\<rparr>,
        camera_animTrack = CameraAnimTrack_new,
        splat_animTrack = (\<lambda>i. SplatAnimTrack_new),
        splat_entity = (\<lambda>i. \<lparr>localPosition = (0, 0, 0), localRotation = (0, 0, 0, 1), localScale = (1, 1, 1)\<rparr>)\<rparr>))) = [7]
   \<and> snd (track_addKey None \<lparr>timeline = \<lparr>timeline_frames = 20, timeline_frame = 7, timeline_smoothness = 1, timeline_frameRate = 30\<rparr>,
        selection = Some \<lparr>type = ElementType.camera, animTrack = Some (Some (SplatTrackRef 0))\<rparr>,
        camera_getPose = Some \<lparr>CameraPose.position = (0, 1, 2), target = (0, 0, 0)\<rparr>,
        camera_animTrack = CameraAnimTrack_new,
        splat_animTrack = (\<lambda>i. SplatAnimTrack_new),
        splat_entity = (\<lambda>i. \<lparr>localPosition = (0, 0, 0), localRotation = (0, 0, 0, 1), localScale = (1, 1, 1)\<rparr>)\<rparr>) = [KeyAdded 7]
   \<and> CameraAnimTrack_keys (camera_animTrack (fst (track_removeKey None \<lparr>timeline = \<lparr>timeline_frames = 20, timeline_frame = 7, timeline_smoothness = 1, timeline_frameRate = 30\<rparr>,
        selection = Some \<lparr>type = ElementType.camera, animTrack = Some (Some (SplatTrackRef 0))\<rparr>,
        camera_getPose = Some \<lparr>CameraPose.position = (0, 1, 2), target = (0, 0, 0)\<rparr>,
        camera_animTrack = \<lparr>poses = [\<lparr>Pose.name = ''camera_0'', frame = 3, position = (1, 1, 1), target = (0, 0, 0)\<rparr>,
                                     \<lparr>Pose.name = ''camera_1'', frame = 7, position = (2, 1, 1), target = (0, 0, 0)\<rparr>],
                             CameraAnimTrack.onTimelineChange = None\<rparr>,
        splat_animTrack = (\<lambda>i. SplatAnimTrack_new),
        splat_entity = (\<lambda>i. \<lparr>localPosition = (0, 0, 0), localRotation = (0, 0, 0, 1), localScale = (1, 1, 1)\<rparr>)\<rparr>))) = [3]
   \<and> snd (track_removeKey None \<lparr>timeline = \<lparr>timeline_frames = 20, timeline_frame = 7, timeline_smoothness = 1, timeline_frameRate = 30\<rparr>,
        selection = Some \<lparr>type = ElementType.camera, animTrack = Some (Some (SplatTrackRef 0))\<rparr>,
        camera_getPose = Some \<lparr>CameraPose.position = (0, 1, 2), target = (0, 0, 0)\<rparr>,
        camera_animTrack = \<lparr>poses = [\<lparr>Pose.name = ''camera_0'', frame = 3, position = (1, 1, 1), target = (0, 0, 0)\<rparr>,
                                     \<lparr>Pose.name = ''camera_1'', frame = 7, position = (2, 1, 1), target = (0, 0, 0)\<rparr>],
                             CameraAnimTrack.onTimelineChange = None\<rparr>,
        splat_animTrack = (\<lambda>i. SplatAnimTrack_new),
        splat_entity = (\<lambda>i. \<lparr>localPosition = (0, 0, 0), localRotation = (0, 0, 0, 1), localScale = (1, 1, 1)\<rparr>)\<rparr>) = [KeyRemoved 7]
   \<and> getActiveTrack \<lparr>timeline = \<lparr>timeline_frames = 20, timeline_frame = 7, timeline_smoothness = 1, timeline_frameRate = 30\<rparr>,
        selection = Some \<lparr>type = ElementType.splat, animTrack = Some None\<rparr>,
        camera_getPose = Some \<lparr>CameraPose.position = (0, 1, 2), target = (0, 0, 0)\<rparr>,
        camera_animTrack = CameraAnimTrack_new,
        splat_animTrack = (\<lambda>i. SplatAnimTrack_new),
        splat_entity = (\<lambda>i. \<lparr>localPosition = (0, 0, 0), localRotation = (0, 0, 0, 1), localScale = (1, 1, 1)\<rparr>)\<rparr> = None
   \<and> track_keys \<lparr>timeline = \<lparr>timeline_frames = 20, timeline_frame = 7, timeline_smoothness = 1, timeline_frameRate = 30\<rparr>,
        selection = Some \<lparr>type = ElementType.splat, animTrack = Some None\<rparr>,
        camera_getPose = Some \<lparr>CameraPose.position = (0, 1, 2), target = (0, 0, 0)\<rparr>,
        camera_animTrack = CameraAnimTrack_new,
        splat_animTrack = (\<lambda>i. SplatAnimTrack_new),
        splat_entity = (\<lambda>i. \<lparr>localPosition = (0, 0, 0), localRotation = (0, 0, 0, 1), localScale = (1, 1, 1)\<rparr>)\<rparr> = []
   \<and> track_addKey None \<lparr>timeline = \<lparr>timeline_frames = 20, timeline_frame = 7, timeline_smoothness = 1, timeline_frameRate = 30\<rparr>,
        selection = Some \<lparr>type = ElementType.splat, animTrack = Some None\<rparr>,
        camera_getPose = Some \<lparr>CameraPose.position = (0, 1, 2), target = (0, 0, 0)\<rparr>,
        camera_animTrack = CameraAnimTrack_new,
        splat_animTrack = (\<lambda>i. SplatAnimTrack_new),
        splat_entity = (\<lambda>i. \<lparr>localPosition = (0, 0, 0), localRotation = (0, 0, 0, 1), localScale = (1, 1, 1)\<rparr>)\<rparr>
       = (\<lparr>timeline = \<lparr>timeline_frames = 20, timeline_frame = 7, timeline_smoothness = 1, timeline_frameRate = 30\<rparr>,
        selection = Some \<lparr>type = ElementType.splat, animTrack = Some None\<rparr>,
        camera_getPose = Some \<lparr>CameraPose.position = (0, 1, 2), target = (0, 0, 0)\<rparr>,
        camera_animTrack = CameraAnimTrack_new,
        splat_animTrack = (\<lambda>i. SplatAnimTrack_new),
        splat_entity = (\<lambda>i. \<lparr>localPosition = (0, 0, 0), localRotation = (0, 0, 0, 1), localScale = (1, 1, 1)\<rparr>)\<rparr>, [])
   \<and> track_removeKey (Some 4) \<lparr>timeline = \<lparr>timeline_frames = 20, timeline_frame = 7, timeline_smoothness = 1, timeline_frameRate = 30\<rparr>,
        selection = Some \<lparr>type = ElementType.splat, animTrack = Some None\<rparr>,
        camera_getPose = Some \<lparr>CameraPose.position = (0, 1, 2), target = (0, 0, 0)\<rparr>,
        camera_animTrack = CameraAnimTrack_new,
        splat_animTrack = (\<lambda>i. SplatAnimTrack_new),
        splat_entity = (\<lambda>i. \<lparr>localPosition = (0, 0, 0), localRotation = (0, 0, 0, 1), localScale = (1, 1, 1)\<rparr>)\<rparr>
       = (\<lparr>timeline = \<lparr>timeline_frames = 20, timeline_frame = 7, timeline_smoothness = 1, timeline_frameRate = 30\<rparr>,
        selection = Some \<lparr>type = ElementType.splat, animTrack = Some None\<rparr>,
        camera_getPose = Some \<lparr>CameraPose.position = (0, 1, 2), target = (0, 0, 0)\<rparr>,
        camera_animTrack = CameraAnimTrack_new,
        splat_animTrack = (\<lambda>i. SplatAnimTrack_new),
        splat_entity = (\<lambda>i. \<lparr>localPosition = (0, 0, 0), localRotation = (0, 0, 0, 1), localScale = (1, 1, 1)\<rparr>)\<rparr>, [])
   \<and> track_moveKey 4 6 \<lparr>timeline = \<lparr>timeline_frames = 20, timeline_frame = 7, timeline_smoothness = 1, timeline_frameRate = 30\<rparr>,
        selection = Some \<lparr>type = ElementType.splat, animTrack = Some None\<rparr>,
        camera_getPose = Some \<lparr>CameraPose.position = (0, 1, 2), target = (0, 0, 0)\<rparr>,
        camera_animTrack = CameraAnimTrack_new,
        splat_animTrack = (\<lambda>i. SplatAnimTrack_new),
        splat_entity = (\<lambda>i. \<lparr>localPosition = (0, 0, 0), localRotation = (0, 0, 0, 1), localScale = (1, 1, 1)\<rparr>)\<rparr>
       = Inr (\<lparr>timeline = \<lparr>timeline_frames = 20, timeline_frame = 7, timeline_smoothness = 1, timeline_frameRate = 30\<rparr>,
        selection = Some \<lparr>type = ElementType.splat, animTrack = Some None\<rparr>,
        camera_getPose = Some \<lparr>CameraPose.position = (0, 1, 2), target = (0, 0, 0)\<rparr>,
        camera_animTrack = CameraAnimTrack_new,
        splat_animTrack = (\<lambda>i. SplatAnimTrack_new),
        splat_entity = (\<lambda>i. \<lparr>localPosition = (0, 0, 0), localRotation = (0, 0, 0, 1), localScale = (1, 1, 1)\<rparr>)\<rparr>, [])
   \<and> getActiveTrack \<lparr>timeline = \<lparr>timeline_frames = 20, timeline_frame = 7, timeline_smoothness = 1, timeline_frameRate = 30\<rparr>,
        selection = Some \<lparr>type = ElementType.splat, animTrack = Some (Some (SplatTrackRef 2))\<rparr>,
        camera_getPose = Some \<lparr>CameraPose.position = (0, 1, 2), target = (0, 0, 0)\<rparr>,
        camera_animTrack = CameraAnimTrack_new,
        splat_animTrack = (\<lambda>i. SplatAnimTrack_new),
        splat_entity = (\<lambda>i. \<lparr>localPosition = (0, 0, 0), localRotation = (0, 0, 0, 1), localScale = (1, 1, 1)\<rparr>)\<rparr> = Some (SplatTrackRef 2)
   \<and> SplatAnimTrack_keys (splat_animTrack (fst (track_addKey None \<lparr>timeline = \<lparr>timeline_frames = 20, timeline_frame = 7, timeline_smoothness = 1, timeline_frameRate = 30\<rparr>,
        selection = Some \<lparr>type = ElementType.splat, animTrack = Some (Some (SplatTrackRef 2))\<rparr>,
        camera_getPose = Some \<lparr>CameraPose.position = (0, 1, 2), target = (0, 0, 0)\<rparr>,
        camera_animTrack = CameraAnimTrack_new,
        splat_animTrack = (\<lambda>i. SplatAnimTrack_new),
        splat_entity = (\<lambda>i. \<lparr>localPosition = (0, 0, 0), localRotation = (0, 0, 0, 1), localScale = (1, 1, 1)\<rparr>)\<rparr>)) 2) = [7]
   \<and> snd (track_addKey None \<lparr>timeline = \<lparr>timeline_frames = 20, timeline_frame = 7, timeline_smoothness = 1, timeline_frameRate = 30\<rparr>,
        selection = Some \<lparr>type = ElementType.splat, animTrack = Some (Some (SplatTrackRef 2))\<rparr>,
        camera_getPose = Some \<lparr>CameraPose.position = (0, 1, 2), target = (0, 0, 0)\<rparr>,
        camera_animTrack = CameraAnimTrack_new,
        splat_animTrack = (\<lambda>i. SplatAnimTrack_new),
        splat_entity = (\<lambda>i. \<lparr>localPosition = (0, 0, 0), localRotation = (0, 0, 0, 1), localScale = (1, 1, 1)\<rparr>)\<rparr>) = [KeyAdded 7]"
proof -
  have none: "getActiveTrack \<lparr>timeline = \<lparr>timeline_frames = 20, timeline_frame = 7, timeline_smoothness = 1, timeline_frameRate = 30\<rparr>,
        selection = Some \<lparr>type = ElementType.splat, animTrack = Some None\<rparr>,
        camera_getPose = Some \<lparr>CameraPose.position = (0, 1, 2), target = (0, 0, 0)\<rparr>,
        camera_animTrack = CameraAnimTrack_new,
        splat_animTrack = (\<lambda>i. SplatAnimTrack_new),
        splat_entity = (\<lambda>i. \<lparr>localPosition = (0, 0, 0), localRotation = (0, 0, 0, 1), localScale = (1, 1, 1)\<rparr>)\<rparr> = None"
    by (simp add: getActiveTrack_def selection_isCamera_def isAnimatable_def)
  have splat: "getActiveTrack \<lparr>timeline = \<lparr>timeline_frames = 20, timeline_frame = 7, timeline_smoothness = 1, timeline_frameRate = 30\<rparr>,
        selection = Some \<lparr>type = ElementType.splat, animTrack = Some (Some (SplatTrackRef 2))\<rparr>,
        camera_getPose = Some \<lparr>CameraPose.position = (0, 1, 2), target = (0, 0, 0)\<rparr>,
        camera_animTrack = CameraAnimTrack_new,
        splat_animTrack = (\<lambda>i. SplatAnimTrack_new),
        splat_entity = (\<lambda>i. \<lparr>localPosition = (0, 0, 0), localRotation = (0, 0, 0, 1), localScale = (1, 1, 1)\<rparr>)\<rparr> = Some (SplatTrackRef 2)"
    by (simp add: getActiveTrack_def selection_isCamera_def isAnimatable_def)
  have a1: "CameraAnimTrack_keys (fst (CameraAnimTrack_addKey \<lparr>timeline_frames = 20, timeline_frame = 7, timeline_smoothness = 1, timeline_frameRate = 30\<rparr> (Some \<lparr>CameraPose.position = (0, 1, 2), target = (0, 0, 0)\<rparr>) 7 CameraAnimTrack_new)) = [7]
     \<and> snd (CameraAnimTrack_addKey \<lparr>timeline_frames = 20, timeline_frame = 7, timeline_smoothness = 1, timeline_frameRate = 30\<rparr> (Some \<lparr>CameraPose.position = (0, 1, 2), target = (0, 0, 0)\<rparr>) 7 CameraAnimTrack_new) = [KeyAdded 7]"
    by (simp add: CameraAnimTrack_addKey_def CameraAnimTrack_keys_def CameraAnimTrack_new_def)
  have r1: "CameraAnimTrack_keys (fst (CameraAnimTrack_removeKey \<lparr>timeline_frames = 20, timeline_frame = 7, timeline_smoothness = 1, timeline_frameRate = 30\<rparr> 7
        \<lparr>poses = [\<lparr>Pose.name = ''camera_0'', frame = 3, position = (1, 1, 1), target = (0, 0, 0)\<rparr>,
                  \<lparr>Pose.name = ''camera_1'', frame = 7, position = (2, 1, 1), target = (0, 0, 0)\<rparr>],
          CameraAnimTrack.onTimelineChange = None\<rparr>)) = [3]
     \<and> snd (CameraAnimTrack_removeKey \<lparr>timeline_frames = 20, timeline_frame = 7, timeline_smoothness = 1, timeline_frameRate = 30\<rparr> 7
        \<lparr>poses = [\<lparr>Pose.name = ''camera_0'', frame = 3, position = (1, 1, 1), target = (0, 0, 0)\<rparr>,
                  \<lparr>Pose.name = ''camera_1'', frame = 7, position = (2, 1, 1), target = (0, 0, 0)\<rparr>],
          CameraAnimTrack.onTimelineChange = None\<rparr>) = [KeyRemoved 7]"
    by (simp add: CameraAnimTrack_removeKey_def CameraAnimTrack_keys_def splice1_def)
  have s1: "SplatAnimTrack_keys (fst (SplatAnimTrack_addKey \<lparr>timeline_frames = 20, timeline_frame = 7, timeline_smoothness = 1, timeline_frameRate = 30\<rparr> \<lparr>localPosition = (0, 0, 0), localRotation = (0, 0, 0, 1), localScale = (1, 1, 1)\<rparr> 7 SplatAnimTrack_new)) = [7]
     \<and> snd (SplatAnimTrack_addKey \<lparr>timeline_frames = 20, timeline_frame = 7, timeline_smoothness = 1, timeline_frameRate = 30\<rparr> \<lparr>localPosition = (0, 0, 0), localRotation = (0, 0, 0, 1), localScale = (1, 1, 1)\<rparr> 7 SplatAnimTrack_new) = [KeyAdded 7]"
    by (simp add: SplatAnimTrack_addKey_def SplatAnimTrack_keys_def SplatAnimTrack_new_def)
  show ?thesis
    using none splat a1 r1 s1
      resolver_dispatch
        [where w = "\<lparr>timeline = \<lparr>timeline_frames = 20, timeline_frame = 7, timeline_smoothness = 1, timeline_frameRate = 30\<rparr>,
        selection = Some \<lparr>type = ElementType.camera, animTrack = Some (Some (SplatTrackRef 0))\<rparr>,
        camera_getPose = Some \<lparr>CameraPose.position = (0, 1, 2), target = (0, 0, 0)\<rparr>,
        camera_animTrack = CameraAnimTrack_new,
        splat_animTrack = (\<lambda>i. SplatAnimTrack_new),
        splat_entity = (\<lambda>i. \<lparr>localPosition = (0, 0, 0), localRotation = (0, 0, 0, 1), localScale = (1, 1, 1)\<rparr>)\<rparr>"
           and el = "\<lparr>type = ElementType.camera, animTrack = Some (Some (SplatTrackRef 0))\<rparr>"
           and w' = "\<lparr>timeline = \<lparr>timeline_frames = 20, timeline_frame = 7, timeline_smoothness = 1, timeline_frameRate = 30\<rparr>,
        selection = Some \<lparr>type = ElementType.splat, animTrack = Some None\<rparr>,
        camera_getPose = Some \<lparr>CameraPose.position = (0, 1, 2), target = (0, 0, 0)\<rparr>,
        camera_animTrack = CameraAnimTrack_new,
        splat_animTrack = (\<lambda>i. SplatAnimTrack_new),
        splat_entity = (\<lambda>i. \<lparr>localPosition = (0, 0, 0), localRotation = (0, 0, 0, 1), localScale = (1, 1, 1)\<rparr>)\<rparr>"
           and fr = None and a = 4 and b = 6
           and w'' = "\<lparr>timeline = \<lparr>timeline_frames = 20, timeline_frame = 7, timeline_smoothness = 1, timeline_frameRate = 30\<rparr>,
        selection = Some \<lparr>type = ElementType.splat, animTrack = Some (Some (SplatTrackRef 2))\<rparr>,
        camera_getPose = Some \<lparr>CameraPose.position = (0, 1, 2), target = (0, 0, 0)\<rparr>,
        camera_animTrack = CameraAnimTrack_new,
        splat_animTrack = (\<lambda>i. SplatAnimTrack_new),
        splat_entity = (\<lambda>i. \<lparr>localPosition = (0, 0, 0), localRotation = (0, 0, 0, 1), localScale = (1, 1, 1)\<rparr>)\<rparr>"
           and t = "SplatTrackRef 2"]
      resolver_dispatch
        [where w = "\<lparr>timeline = \<lparr>timeline_frames = 20, timeline_frame = 7, timeline_smoothness = 1, timeline_frameRate = 30\<rparr>,
        selection = Some \<lparr>type = ElementType.camera, animTrack = Some (Some (SplatTrackRef 0))\<rparr>,
        camera_getPose = Some \<lparr>CameraPose.position = (0, 1, 2), target = (0, 0, 0)\<rparr>,
        camera_animTrack = \<lparr>poses = [\<lparr>Pose.name = ''camera_0'', frame = 3, position = (1, 1, 1), target = (0, 0, 0)\<rparr>,
                                     \<lparr>Pose.name = ''camera_1'', frame = 7, position = (2, 1, 1), target = (0, 0, 0)\<rparr>],
                             CameraAnimTrack.onTimelineChange = None\<rparr>,
        splat_animTrack = (\<lambda>i. SplatAnimTrack_new),
        splat_entity = (\<lambda>i. \<lparr>localPosition = (0, 0, 0), localRotation = (0, 0, 0, 1), localScale = (1, 1, 1)\<rparr>)\<rparr>"
           and el = "\<lparr>type = ElementType.camera, animTrack = Some (Some (SplatTrackRef 0))\<rparr>"
           and w' = "\<lparr>timeline = \<lparr>timeline_frames = 20, timeline_frame = 7, timeline_smoothness = 1, timeline_frameRate = 30\<rparr>,
        selection = Some \<lparr>type = ElementType.splat, animTrack = Some None\<rparr>,
        camera_getPose = Some \<lparr>CameraPose.position = (0, 1, 2), target = (0, 0, 0)\<rparr>,
        camera_animTrack = CameraAnimTrack_new,
        splat_animTrack = (\<lambda>i. SplatAnimTrack_new),
        splat_entity = (\<lambda>i. \<lparr>localPosition = (0, 0, 0), localRotation = (0, 0, 0, 1), localScale = (1, 1, 1)\<rparr>)\<rparr>"
           and fr = "Some 4" and a = 4 and b = 6]
    by (simp add: case_prod_unfold)
qed

section \<open>Export and import of the pose track\<close>

lemma deserialize_serialized:
  "map (\<lambda>(index, docPose).
          \<lparr>Pose.name = DocPose.name docPose,
           Pose.frame = (case DocPose.frame docPose of Some fr \<Rightarrow> fr | None \<Rightarrow> real index * fps),
           Pose.position = DocPose.position docPose,
           Pose.target = DocPose.target docPose\<rparr>)
       (enumerate n
          (map (\<lambda>pose. \<lparr>DocPose.name = Pose.name pose, DocPose.frame = Some (Pose.frame pose),
                         DocPose.position = Pose.position pose, DocPose.target = Pose.target pose\<rparr>) ps))
   = ps"
  by (induction ps arbitrary: n) simp_all

text \<open>
  C9. Export a pose track \<open>tr\<close> with \<^verbatim>\<open>docSerialize.poseSets\<close> and import the
  result with \<^verbatim>\<open>docDeserialize.poseSets\<close>: the store of the receiving track is then
  the list of poses of \<open>tr\<close>, with the same names, frames, positions and targets in the
  same order, whatever the duration (keys at or beyond it are kept). Every stored pose has
  a frame. The receiving track is any track when \<open>tr\<close> has a pose; the export of an
  empty track is the empty list, which the import ignores, so then the receiving track is
  one with an empty store (the track itself, or a cleared one).
\<close>

theorem poseSets_roundtrip:
  assumes "poses tr \<noteq> [] \<or> poses tr' = []"
  shows "poses (fst (docDeserialize_poseSets tml (docSerialize_poseSets tr) tr')) = poses tr"
proof (cases "poses tr = []")
  case True
  with assms show ?thesis
    by (simp add: docSerialize_poseSets_def docDeserialize_poseSets_def CameraAnimTrack_getPoses_def)
next
  case False
  then show ?thesis
    by (simp add: docSerialize_poseSets_def docDeserialize_poseSets_def CameraAnimTrack_getPoses_def
          CameraAnimTrack_loadPoses_def deserialize_serialized Let_def)
qed

text \<open>C9 at a track of three poses in the store order 0, 90, 45, imported under a duration
  of 60.\<close>

theorem poseSets_roundtrip_witness:
  "length (poses \<lparr>poses = [\<lparr>Pose.name = ''camera_0'', frame = 0, position = (0, 1, 2), target = (0, 0, 0)\<rparr>,
                     \<lparr>Pose.name = ''camera_1'', frame = 90, position = (3, 1, 2), target = (0, 0, 1)\<rparr>,
                     \<lparr>Pose.name = ''camera_2'', frame = 45, position = (5, 1, 2), target = (0, 1, 0)\<rparr>],
            CameraAnimTrack.onTimelineChange = None\<rparr>) = 3
   \<and> poses (fst (docDeserialize_poseSets
        \<lparr>timeline_frames = 60, timeline_frame = 0, timeline_smoothness = 1, timeline_frameRate = 30\<rparr>
        (docSerialize_poseSets
           \<lparr>poses = [\<lparr>Pose.name = ''camera_0'', frame = 0, position = (0, 1, 2), target = (0, 0, 0)\<rparr>,
                     \<lparr>Pose.name = ''camera_1'', frame = 90, position = (3, 1, 2), target = (0, 0, 1)\<rparr>,
                     \<lparr>Pose.name = ''camera_2'', frame = 45, position = (5, 1, 2), target = (0, 1, 0)\<rparr>],
            CameraAnimTrack.onTimelineChange = None\<rparr>)
        CameraAnimTrack_new))
     = [\<lparr>Pose.name = ''camera_0'', frame = 0, position = (0, 1, 2), target = (0, 0, 0)\<rparr>,
        \<lparr>Pose.name = ''camera_1'', frame = 90, position = (3, 1, 2), target = (0, 0, 1)\<rparr>,
        \<lparr>Pose.name = ''camera_2'', frame = 45, position = (5, 1, 2), target = (0, 1, 0)\<rparr>]"
  using poseSets_roundtrip
    [of "\<lparr>poses = [\<lparr>Pose.name = ''camera_0'', frame = 0, position = (0, 1, 2), target = (0, 0, 0)\<rparr>,
                     \<lparr>Pose.name = ''camera_1'', frame = 90, position = (3, 1, 2), target = (0, 0, 1)\<rparr>,
                     \<lparr>Pose.name = ''camera_2'', frame = 45, position = (5, 1, 2), target = (0, 1, 0)\<rparr>],
            CameraAnimTrack.onTimelineChange = None\<rparr>"
        CameraAnimTrack_new
        "\<lparr>timeline_frames = 60, timeline_frame = 0, timeline_smoothness = 1, timeline_frameRate = 30\<rparr>"]
  by simp

section \<open>addKey twice at one frame\<close>

lemma findIndex_append_new:
  "findIndex P xs = None \<Longrightarrow> P y \<Longrightarrow> findIndex P (xs @ [y]) = Some (length xs)"
  by (induction xs) (auto split: if_splits)

lemma count_list_snoc_new: "x \<notin> set xs \<Longrightarrow> count_list (xs @ [x]) x = 1"
  by (simp add: count_list_0_iff)

lemma SplatAnimTrack_addKey_new:
  assumes "fr \<notin> set (SplatAnimTrack_keys tr)"
  shows "SplatAnimTrack_addKey tml entity fr tr =
           (SplatAnimTrack_rebuildSplines tml
              (tr\<lparr>keyframes := keyframes tr @
                    [\<lparr>TransformKey.frame = fr, position = localPosition entity,
                      rotation = localRotation entity, scale = localScale entity\<rparr>]\<rparr>),
            [KeyAdded fr])"
proof -
  have "findIndex (\<lambda>k. TransformKey.frame k = fr) (keyframes tr) = None"
    using assms by (auto simp: findIndex_None_iff SplatAnimTrack_keys_def)
  then show ?thesis by (simp add: SplatAnimTrack_addKey_def)
qed

lemma SplatAnimTrack_addKey_last:
  assumes "fr \<notin> set (map TransformKey.frame ks)" and "keyframes tr = ks @ [k]"
    and "TransformKey.frame k = fr"
  shows "SplatAnimTrack_addKey tml entity fr tr =
           (SplatAnimTrack_rebuildSplines tml
              (tr\<lparr>keyframes := ks @
                    [\<lparr>TransformKey.frame = fr, position = localPosition entity,
                      rotation = localRotation entity, scale = localScale entity\<rparr>]\<rparr>),
            [KeyUpdated fr])"
proof -
  have "findIndex (\<lambda>k. TransformKey.frame k = fr) ks = None"
    using assms(1) by (auto simp: findIndex_None_iff)
  then have "findIndex (\<lambda>k. TransformKey.frame k = fr) (keyframes tr) = Some (length ks)"
    using assms(2,3) by (simp add: findIndex_append_new)
  then show ?thesis using assms(2) by (simp add: SplatAnimTrack_addKey_def)
qed

lemma CameraAnimTrack_addKey_new:
  assumes "fr \<notin> set (CameraAnimTrack_keys tr)"
  shows "CameraAnimTrack_addKey tml (Some pose) fr tr =
           (CameraAnimTrack_rebuildSpline tml
              (tr\<lparr>poses := poses tr @
                    [\<lparr>Pose.name = ''camera_'' @ decimal (length (poses tr)), frame = fr,
                      position = CameraPose.position pose, target = CameraPose.target pose\<rparr>]\<rparr>),
            [KeyAdded fr])"
proof -
  have "findIndex (\<lambda>p. Pose.frame p = fr) (poses tr) = None"
    using assms by (auto simp: findIndex_None_iff CameraAnimTrack_keys_def)
  then show ?thesis by (simp add: CameraAnimTrack_addKey_def)
qed

lemma CameraAnimTrack_addKey_last:
  assumes "fr \<notin> set (map Pose.frame ps)" and "poses tr = ps @ [p]" and "Pose.frame p = fr"
  shows "CameraAnimTrack_addKey tml (Some pose) fr tr =
           (CameraAnimTrack_rebuildSpline tml
              (tr\<lparr>poses := ps @
                    [\<lparr>Pose.name = ''camera_'' @ decimal (Suc (length ps)), frame = fr,
                      position = CameraPose.position pose, target = CameraPose.target pose\<rparr>]\<rparr>),
            [KeyUpdated fr])"
proof -
  have "findIndex (\<lambda>p. Pose.frame p = fr) ps = None"
    using assms(1) by (auto simp: findIndex_None_iff)
  then have "findIndex (\<lambda>p. Pose.frame p = fr) (poses tr) = Some (length ps)"
    using assms(2,3) by (simp add: findIndex_append_new)
  then show ?thesis using assms(2) by (simp add: CameraAnimTrack_addKey_def)
qed

lemma findIndex_update_same:
  "findIndex P xs = Some i \<Longrightarrow> P y \<Longrightarrow> findIndex P (xs[i := y]) = Some i"
proof (induction xs arbitrary: i)
  case Nil
  then show ?case by simp
next
  case (Cons x xs)
  then show ?case by (cases i) (auto split: if_splits)
qed

lemma count_list_distinct_member:
  "distinct xs \<Longrightarrow> x \<in> set xs \<Longrightarrow> count_list xs x = 1"
  by (induction xs) (auto simp: count_list_0_iff)

text \<open>On a frame that has a keyframe, \<^verbatim>\<open>addKey\<close> replaces the record at the first index
  that holds the frame and fires \<^verbatim>\<open>keyUpdated\<close>.\<close>

lemma SplatAnimTrack_addKey_keyed:
  assumes "findIndex (\<lambda>k. TransformKey.frame k = fr) (keyframes tr) = Some i"
  shows "SplatAnimTrack_addKey tml entity fr tr =
           (SplatAnimTrack_rebuildSplines tml
              (tr\<lparr>keyframes := (keyframes tr)
                    [i := \<lparr>TransformKey.frame = fr, position = localPosition entity,
                            rotation = localRotation entity, scale = localScale entity\<rparr>]\<rparr>),
            [KeyUpdated fr])"
  using assms by (simp add: SplatAnimTrack_addKey_def)

lemma CameraAnimTrack_addKey_keyed:
  assumes "findIndex (\<lambda>p. Pose.frame p = fr) (poses tr) = Some i"
  shows "CameraAnimTrack_addKey tml (Some pose) fr tr =
           (CameraAnimTrack_rebuildSpline tml
              (tr\<lparr>poses := (poses tr)
                    [i := \<lparr>Pose.name = ''camera_'' @ decimal (length (poses tr)), frame = fr,
                            position = CameraPose.position pose, target = CameraPose.target pose\<rparr>]\<rparr>),
            [KeyUpdated fr])"
  using assms by (simp add: CameraAnimTrack_addKey_def)

lemma SplatAnimTrack_addKey_twice_new:
  "(fr \<notin> set (SplatAnimTrack_keys tr) \<longrightarrow>
      snd (SplatAnimTrack_addKey tml1 e1 fr tr) = [KeyAdded fr]
    \<and> keyframes (fst (SplatAnimTrack_addKey tml1 e1 fr tr))
        = keyframes tr @ [\<lparr>TransformKey.frame = fr, position = localPosition e1, rotation = localRotation e1, scale = localScale e1\<rparr>]
    \<and> snd (SplatAnimTrack_addKey tml2 e2 fr (fst (SplatAnimTrack_addKey tml1 e1 fr tr)))
        = [KeyUpdated fr]
    \<and> keyframes (fst (SplatAnimTrack_addKey tml2 e2 fr (fst (SplatAnimTrack_addKey tml1 e1 fr tr))))
        = keyframes tr @ [\<lparr>TransformKey.frame = fr, position = localPosition e2, rotation = localRotation e2, scale = localScale e2\<rparr>]
    \<and> count_list (SplatAnimTrack_keys (fst (SplatAnimTrack_addKey tml2 e2 fr (fst (SplatAnimTrack_addKey tml1 e1 fr tr))))) fr = 1)"
proof
  assume "fr \<notin> set (SplatAnimTrack_keys tr)"
  then have n: "fr \<notin> set (map TransformKey.frame (keyframes tr))"
    by (simp add: SplatAnimTrack_keys_def)
  have first: "SplatAnimTrack_addKey tml1 e1 fr tr =
        (SplatAnimTrack_rebuildSplines tml1
           (tr\<lparr>keyframes := keyframes tr @ [\<lparr>TransformKey.frame = fr, position = localPosition e1, rotation = localRotation e1, scale = localScale e1\<rparr>]\<rparr>),
         [KeyAdded fr])"
    using n by (simp add: SplatAnimTrack_addKey_new SplatAnimTrack_keys_def)
  have second: "SplatAnimTrack_addKey tml2 e2 fr (fst (SplatAnimTrack_addKey tml1 e1 fr tr)) =
        (SplatAnimTrack_rebuildSplines tml2
           ((fst (SplatAnimTrack_addKey tml1 e1 fr tr))\<lparr>keyframes := keyframes tr @
              [\<lparr>TransformKey.frame = fr, position = localPosition e2, rotation = localRotation e2, scale = localScale e2\<rparr>]\<rparr>),
         [KeyUpdated fr])"
    by (rule SplatAnimTrack_addKey_last [where k = "\<lparr>TransformKey.frame = fr, position = localPosition e1, rotation = localRotation e1, scale = localScale e1\<rparr>"])
       (use n in \<open>simp_all add: first\<close>)
  show "snd (SplatAnimTrack_addKey tml1 e1 fr tr) = [KeyAdded fr]
    \<and> keyframes (fst (SplatAnimTrack_addKey tml1 e1 fr tr))
        = keyframes tr @ [\<lparr>TransformKey.frame = fr, position = localPosition e1, rotation = localRotation e1, scale = localScale e1\<rparr>]
    \<and> snd (SplatAnimTrack_addKey tml2 e2 fr (fst (SplatAnimTrack_addKey tml1 e1 fr tr)))
        = [KeyUpdated fr]
    \<and> keyframes (fst (SplatAnimTrack_addKey tml2 e2 fr (fst (SplatAnimTrack_addKey tml1 e1 fr tr))))
        = keyframes tr @ [\<lparr>TransformKey.frame = fr, position = localPosition e2, rotation = localRotation e2, scale = localScale e2\<rparr>]
    \<and> count_list (SplatAnimTrack_keys (fst (SplatAnimTrack_addKey tml2 e2 fr (fst (SplatAnimTrack_addKey tml1 e1 fr tr))))) fr = 1"
    unfolding second using n by (simp add: first SplatAnimTrack_keys_def count_list_0_iff)
qed

lemma CameraAnimTrack_addKey_twice_new:
  "(fr \<notin> set (CameraAnimTrack_keys ctr) \<longrightarrow>
      snd (CameraAnimTrack_addKey tml1 (Some p1) fr ctr) = [KeyAdded fr]
    \<and> poses (fst (CameraAnimTrack_addKey tml1 (Some p1) fr ctr))
        = poses ctr @ [\<lparr>Pose.name = ''camera_'' @ decimal (length (poses ctr)), frame = fr, position = CameraPose.position p1, target = CameraPose.target p1\<rparr>]
    \<and> snd (CameraAnimTrack_addKey tml2 (Some p2) fr (fst (CameraAnimTrack_addKey tml1 (Some p1) fr ctr)))
        = [KeyUpdated fr]
    \<and> poses (fst (CameraAnimTrack_addKey tml2 (Some p2) fr (fst (CameraAnimTrack_addKey tml1 (Some p1) fr ctr))))
        = poses ctr @ [\<lparr>Pose.name = ''camera_'' @ decimal (Suc (length (poses ctr))), frame = fr, position = CameraPose.position p2, target = CameraPose.target p2\<rparr>]
    \<and> count_list (CameraAnimTrack_keys (fst (CameraAnimTrack_addKey tml2 (Some p2) fr (fst (CameraAnimTrack_addKey tml1 (Some p1) fr ctr))))) fr = 1)"
proof
  assume "fr \<notin> set (CameraAnimTrack_keys ctr)"
  then have n: "fr \<notin> set (map Pose.frame (poses ctr))"
    by (simp add: CameraAnimTrack_keys_def)
  have first: "CameraAnimTrack_addKey tml1 (Some p1) fr ctr =
        (CameraAnimTrack_rebuildSpline tml1
           (ctr\<lparr>poses := poses ctr @ [\<lparr>Pose.name = ''camera_'' @ decimal (length (poses ctr)), frame = fr, position = CameraPose.position p1, target = CameraPose.target p1\<rparr>]\<rparr>),
         [KeyAdded fr])"
    using n by (simp add: CameraAnimTrack_addKey_new CameraAnimTrack_keys_def)
  have second: "CameraAnimTrack_addKey tml2 (Some p2) fr (fst (CameraAnimTrack_addKey tml1 (Some p1) fr ctr)) =
        (CameraAnimTrack_rebuildSpline tml2
           ((fst (CameraAnimTrack_addKey tml1 (Some p1) fr ctr))\<lparr>poses := poses ctr @
              [\<lparr>Pose.name = ''camera_'' @ decimal (Suc (length (poses ctr))), frame = fr, position = CameraPose.position p2, target = CameraPose.target p2\<rparr>]\<rparr>),
         [KeyUpdated fr])"
    by (rule CameraAnimTrack_addKey_last [where p = "\<lparr>Pose.name = ''camera_'' @ decimal (length (poses ctr)), frame = fr, position = CameraPose.position p1, target = CameraPose.target p1\<rparr>"])
       (use n in \<open>simp_all add: first\<close>)
  show "snd (CameraAnimTrack_addKey tml1 (Some p1) fr ctr) = [KeyAdded fr]
    \<and> poses (fst (CameraAnimTrack_addKey tml1 (Some p1) fr ctr))
        = poses ctr @ [\<lparr>Pose.name = ''camera_'' @ decimal (length (poses ctr)), frame = fr, position = CameraPose.position p1, target = CameraPose.target p1\<rparr>]
    \<and> snd (CameraAnimTrack_addKey tml2 (Some p2) fr (fst (CameraAnimTrack_addKey tml1 (Some p1) fr ctr)))
        = [KeyUpdated fr]
    \<and> poses (fst (CameraAnimTrack_addKey tml2 (Some p2) fr (fst (CameraAnimTrack_addKey tml1 (Some p1) fr ctr))))
        = poses ctr @ [\<lparr>Pose.name = ''camera_'' @ decimal (Suc (length (poses ctr))), frame = fr, position = CameraPose.position p2, target = CameraPose.target p2\<rparr>]
    \<and> count_list (CameraAnimTrack_keys (fst (CameraAnimTrack_addKey tml2 (Some p2) fr (fst (CameraAnimTrack_addKey tml1 (Some p1) fr ctr))))) fr = 1"
    unfolding second using n by (simp add: first CameraAnimTrack_keys_def count_list_0_iff)
qed

lemma SplatAnimTrack_addKey_twice_keyed:
  "(findIndex (\<lambda>k. TransformKey.frame k = fr) (keyframes ktr) = Some i \<longrightarrow>
      snd (SplatAnimTrack_addKey tml1 e1 fr ktr) = [KeyUpdated fr]
    \<and> keyframes (fst (SplatAnimTrack_addKey tml1 e1 fr ktr))
        = (keyframes ktr)[i := \<lparr>TransformKey.frame = fr, position = localPosition e1, rotation = localRotation e1, scale = localScale e1\<rparr>]
    \<and> snd (SplatAnimTrack_addKey tml2 e2 fr (fst (SplatAnimTrack_addKey tml1 e1 fr ktr)))
        = [KeyUpdated fr]
    \<and> keyframes (fst (SplatAnimTrack_addKey tml2 e2 fr (fst (SplatAnimTrack_addKey tml1 e1 fr ktr))))
        = (keyframes ktr)[i := \<lparr>TransformKey.frame = fr, position = localPosition e2, rotation = localRotation e2, scale = localScale e2\<rparr>]
    \<and> SplatAnimTrack_keys (fst (SplatAnimTrack_addKey tml2 e2 fr (fst (SplatAnimTrack_addKey tml1 e1 fr ktr)))) = SplatAnimTrack_keys ktr
    \<and> (distinct (SplatAnimTrack_keys ktr)
         \<longrightarrow> count_list (SplatAnimTrack_keys (fst (SplatAnimTrack_addKey tml2 e2 fr (fst (SplatAnimTrack_addKey tml1 e1 fr ktr))))) fr = 1))"
proof
  assume fi: "findIndex (\<lambda>k. TransformKey.frame k = fr) (keyframes ktr) = Some i"
  then have i: "i < length (keyframes ktr)" and at: "TransformKey.frame (keyframes ktr ! i) = fr"
    using findIndex_Some_less findIndex_Some_nth [of "\<lambda>k. TransformKey.frame k = fr"] by fastforce+
  note first = SplatAnimTrack_addKey_keyed [OF fi, of tml1 e1]
  have fi2: "findIndex (\<lambda>k. TransformKey.frame k = fr) (keyframes (fst (SplatAnimTrack_addKey tml1 e1 fr ktr))) = Some i"
    using fi by (simp add: first findIndex_update_same)
  note second = SplatAnimTrack_addKey_keyed [OF fi2, of tml2 e2]
  have ks: "keyframes (fst (SplatAnimTrack_addKey tml2 e2 fr (fst (SplatAnimTrack_addKey tml1 e1 fr ktr))))
        = (keyframes ktr)[i := \<lparr>TransformKey.frame = fr, position = localPosition e2, rotation = localRotation e2, scale = localScale e2\<rparr>]"
    unfolding second by (simp add: first)
  have keys: "SplatAnimTrack_keys (fst (SplatAnimTrack_addKey tml2 e2 fr (fst (SplatAnimTrack_addKey tml1 e1 fr ktr)))) = SplatAnimTrack_keys ktr"
    unfolding SplatAnimTrack_keys_def ks using i at by (simp add: map_update_same_key)
  have mem: "fr \<in> set (SplatAnimTrack_keys ktr)"
    unfolding SplatAnimTrack_keys_def using i at by (metis length_map nth_map nth_mem)
  show "snd (SplatAnimTrack_addKey tml1 e1 fr ktr) = [KeyUpdated fr]
    \<and> keyframes (fst (SplatAnimTrack_addKey tml1 e1 fr ktr))
        = (keyframes ktr)[i := \<lparr>TransformKey.frame = fr, position = localPosition e1, rotation = localRotation e1, scale = localScale e1\<rparr>]
    \<and> snd (SplatAnimTrack_addKey tml2 e2 fr (fst (SplatAnimTrack_addKey tml1 e1 fr ktr)))
        = [KeyUpdated fr]
    \<and> keyframes (fst (SplatAnimTrack_addKey tml2 e2 fr (fst (SplatAnimTrack_addKey tml1 e1 fr ktr))))
        = (keyframes ktr)[i := \<lparr>TransformKey.frame = fr, position = localPosition e2, rotation = localRotation e2, scale = localScale e2\<rparr>]
    \<and> SplatAnimTrack_keys (fst (SplatAnimTrack_addKey tml2 e2 fr (fst (SplatAnimTrack_addKey tml1 e1 fr ktr)))) = SplatAnimTrack_keys ktr
    \<and> (distinct (SplatAnimTrack_keys ktr)
         \<longrightarrow> count_list (SplatAnimTrack_keys (fst (SplatAnimTrack_addKey tml2 e2 fr (fst (SplatAnimTrack_addKey tml1 e1 fr ktr))))) fr = 1)"
  proof -
    have e1: "snd (SplatAnimTrack_addKey tml1 e1 fr ktr) = [KeyUpdated fr]"
      and k1: "keyframes (fst (SplatAnimTrack_addKey tml1 e1 fr ktr))
        = (keyframes ktr)[i := \<lparr>TransformKey.frame = fr, position = localPosition e1, rotation = localRotation e1, scale = localScale e1\<rparr>]"
      by (simp_all add: first)
    have e2: "snd (SplatAnimTrack_addKey tml2 e2 fr (fst (SplatAnimTrack_addKey tml1 e1 fr ktr)))
        = [KeyUpdated fr]"
      unfolding second by simp
    have cnt: "distinct (SplatAnimTrack_keys ktr)
         \<longrightarrow> count_list (SplatAnimTrack_keys (fst (SplatAnimTrack_addKey tml2 e2 fr (fst (SplatAnimTrack_addKey tml1 e1 fr ktr))))) fr = 1"
      unfolding keys using mem by (simp add: count_list_distinct_member)
    from e1 k1 e2 ks keys cnt show ?thesis by blast
  qed
qed

lemma CameraAnimTrack_addKey_twice_keyed:
  "(findIndex (\<lambda>p. Pose.frame p = fr) (poses kctr) = Some j \<longrightarrow>
      snd (CameraAnimTrack_addKey tml1 (Some p1) fr kctr) = [KeyUpdated fr]
    \<and> poses (fst (CameraAnimTrack_addKey tml1 (Some p1) fr kctr))
        = (poses kctr)[j := \<lparr>Pose.name = ''camera_'' @ decimal (length (poses kctr)), frame = fr, position = CameraPose.position p1, target = CameraPose.target p1\<rparr>]
    \<and> snd (CameraAnimTrack_addKey tml2 (Some p2) fr (fst (CameraAnimTrack_addKey tml1 (Some p1) fr kctr)))
        = [KeyUpdated fr]
    \<and> poses (fst (CameraAnimTrack_addKey tml2 (Some p2) fr (fst (CameraAnimTrack_addKey tml1 (Some p1) fr kctr))))
        = (poses kctr)[j := \<lparr>Pose.name = ''camera_'' @ decimal (length (poses kctr)), frame = fr, position = CameraPose.position p2, target = CameraPose.target p2\<rparr>]
    \<and> CameraAnimTrack_keys (fst (CameraAnimTrack_addKey tml2 (Some p2) fr (fst (CameraAnimTrack_addKey tml1 (Some p1) fr kctr)))) = CameraAnimTrack_keys kctr
    \<and> (distinct (CameraAnimTrack_keys kctr)
         \<longrightarrow> count_list (CameraAnimTrack_keys (fst (CameraAnimTrack_addKey tml2 (Some p2) fr (fst (CameraAnimTrack_addKey tml1 (Some p1) fr kctr))))) fr = 1))"
proof
  assume fi: "findIndex (\<lambda>p. Pose.frame p = fr) (poses kctr) = Some j"
  then have j: "j < length (poses kctr)" and at: "Pose.frame (poses kctr ! j) = fr"
    using findIndex_Some_less findIndex_Some_nth [of "\<lambda>p. Pose.frame p = fr"] by fastforce+
  note first = CameraAnimTrack_addKey_keyed [OF fi, of tml1 p1]
  have fi2: "findIndex (\<lambda>p. Pose.frame p = fr) (poses (fst (CameraAnimTrack_addKey tml1 (Some p1) fr kctr))) = Some j"
    using fi by (simp add: first findIndex_update_same)
  note second = CameraAnimTrack_addKey_keyed [OF fi2, of tml2 p2]
  have ps: "poses (fst (CameraAnimTrack_addKey tml2 (Some p2) fr (fst (CameraAnimTrack_addKey tml1 (Some p1) fr kctr))))
        = (poses kctr)[j := \<lparr>Pose.name = ''camera_'' @ decimal (length (poses kctr)), frame = fr, position = CameraPose.position p2, target = CameraPose.target p2\<rparr>]"
    unfolding second by (simp add: first)
  have keys: "CameraAnimTrack_keys (fst (CameraAnimTrack_addKey tml2 (Some p2) fr (fst (CameraAnimTrack_addKey tml1 (Some p1) fr kctr)))) = CameraAnimTrack_keys kctr"
    unfolding CameraAnimTrack_keys_def ps using j at by (simp add: map_update_same_key)
  have mem: "fr \<in> set (CameraAnimTrack_keys kctr)"
    unfolding CameraAnimTrack_keys_def using j at by (metis length_map nth_map nth_mem)
  show "snd (CameraAnimTrack_addKey tml1 (Some p1) fr kctr) = [KeyUpdated fr]
    \<and> poses (fst (CameraAnimTrack_addKey tml1 (Some p1) fr kctr))
        = (poses kctr)[j := \<lparr>Pose.name = ''camera_'' @ decimal (length (poses kctr)), frame = fr, position = CameraPose.position p1, target = CameraPose.target p1\<rparr>]
    \<and> snd (CameraAnimTrack_addKey tml2 (Some p2) fr (fst (CameraAnimTrack_addKey tml1 (Some p1) fr kctr)))
        = [KeyUpdated fr]
    \<and> poses (fst (CameraAnimTrack_addKey tml2 (Some p2) fr (fst (CameraAnimTrack_addKey tml1 (Some p1) fr kctr))))
        = (poses kctr)[j := \<lparr>Pose.name = ''camera_'' @ decimal (length (poses kctr)), frame = fr, position = CameraPose.position p2, target = CameraPose.target p2\<rparr>]
    \<and> CameraAnimTrack_keys (fst (CameraAnimTrack_addKey tml2 (Some p2) fr (fst (CameraAnimTrack_addKey tml1 (Some p1) fr kctr)))) = CameraAnimTrack_keys kctr
    \<and> (distinct (CameraAnimTrack_keys kctr)
         \<longrightarrow> count_list (CameraAnimTrack_keys (fst (CameraAnimTrack_addKey tml2 (Some p2) fr (fst (CameraAnimTrack_addKey tml1 (Some p1) fr kctr))))) fr = 1)"
  proof -
    have e1: "snd (CameraAnimTrack_addKey tml1 (Some p1) fr kctr) = [KeyUpdated fr]"
      and k1: "poses (fst (CameraAnimTrack_addKey tml1 (Some p1) fr kctr))
        = (poses kctr)[j := \<lparr>Pose.name = ''camera_'' @ decimal (length (poses kctr)), frame = fr, position = CameraPose.position p1, target = CameraPose.target p1\<rparr>]"
      by (simp_all add: first)
    have e2: "snd (CameraAnimTrack_addKey tml2 (Some p2) fr (fst (CameraAnimTrack_addKey tml1 (Some p1) fr kctr)))
        = [KeyUpdated fr]"
      unfolding second by simp
    have cnt: "distinct (CameraAnimTrack_keys kctr)
         \<longrightarrow> count_list (CameraAnimTrack_keys (fst (CameraAnimTrack_addKey tml2 (Some p2) fr (fst (CameraAnimTrack_addKey tml1 (Some p1) fr kctr))))) fr = 1"
      unfolding keys using mem by (simp add: count_list_distinct_member)
    from e1 k1 e2 ps keys cnt show ?thesis by blast
  qed
qed

text \<open>
  C6, as amended. The state provider yields a state at both calls of \<^verbatim>\<open>addKey(fr)\<close>
  (the entity of a splat always does; for the pose track, \<^verbatim>\<open>camera.getPose\<close> returns a
  pose); timelines and provider states may differ between the calls. For both tracks:

  When \<open>fr\<close> has no keyframe in the store, the first call appends a record with the
  captured state and fires \<^verbatim>\<open>keyAdded\<close>; the second replaces that record, in place, by
  one with the state captured at the second call and fires \<^verbatim>\<open>keyUpdated\<close>. The records
  before it are untouched, the count does not grow at the second call, and exactly one
  keyframe is at \<open>fr\<close>.

  When \<open>fr\<close> has a keyframe, at index \<open>i\<close> of the store (the first index holding
  \<open>fr\<close>), each of the two calls replaces the record at index \<open>i\<close> by one with the state
  captured at that call and fires \<^verbatim>\<open>keyUpdated\<close>; every other record stays at its
  index, the list of frames of the store is what it was, and when the frames of the store
  were unique exactly one keyframe is at \<open>fr\<close>.
\<close>

theorem addKey_twice:
  "(fr \<notin> set (SplatAnimTrack_keys tr) \<longrightarrow>
      snd (SplatAnimTrack_addKey tml1 e1 fr tr) = [KeyAdded fr]
    \<and> keyframes (fst (SplatAnimTrack_addKey tml1 e1 fr tr))
        = keyframes tr @ [\<lparr>TransformKey.frame = fr, position = localPosition e1, rotation = localRotation e1, scale = localScale e1\<rparr>]
    \<and> snd (SplatAnimTrack_addKey tml2 e2 fr (fst (SplatAnimTrack_addKey tml1 e1 fr tr)))
        = [KeyUpdated fr]
    \<and> keyframes (fst (SplatAnimTrack_addKey tml2 e2 fr (fst (SplatAnimTrack_addKey tml1 e1 fr tr))))
        = keyframes tr @ [\<lparr>TransformKey.frame = fr, position = localPosition e2, rotation = localRotation e2, scale = localScale e2\<rparr>]
    \<and> count_list (SplatAnimTrack_keys (fst (SplatAnimTrack_addKey tml2 e2 fr (fst (SplatAnimTrack_addKey tml1 e1 fr tr))))) fr = 1)
   \<and> (fr \<notin> set (CameraAnimTrack_keys ctr) \<longrightarrow>
      snd (CameraAnimTrack_addKey tml1 (Some p1) fr ctr) = [KeyAdded fr]
    \<and> poses (fst (CameraAnimTrack_addKey tml1 (Some p1) fr ctr))
        = poses ctr @ [\<lparr>Pose.name = ''camera_'' @ decimal (length (poses ctr)), frame = fr, position = CameraPose.position p1, target = CameraPose.target p1\<rparr>]
    \<and> snd (CameraAnimTrack_addKey tml2 (Some p2) fr (fst (CameraAnimTrack_addKey tml1 (Some p1) fr ctr)))
        = [KeyUpdated fr]
    \<and> poses (fst (CameraAnimTrack_addKey tml2 (Some p2) fr (fst (CameraAnimTrack_addKey tml1 (Some p1) fr ctr))))
        = poses ctr @ [\<lparr>Pose.name = ''camera_'' @ decimal (Suc (length (poses ctr))), frame = fr, position = CameraPose.position p2, target = CameraPose.target p2\<rparr>]
    \<and> count_list (CameraAnimTrack_keys (fst (CameraAnimTrack_addKey tml2 (Some p2) fr (fst (CameraAnimTrack_addKey tml1 (Some p1) fr ctr))))) fr = 1)
   \<and> (findIndex (\<lambda>k. TransformKey.frame k = fr) (keyframes ktr) = Some i \<longrightarrow>
      snd (SplatAnimTrack_addKey tml1 e1 fr ktr) = [KeyUpdated fr]
    \<and> keyframes (fst (SplatAnimTrack_addKey tml1 e1 fr ktr))
        = (keyframes ktr)[i := \<lparr>TransformKey.frame = fr, position = localPosition e1, rotation = localRotation e1, scale = localScale e1\<rparr>]
    \<and> snd (SplatAnimTrack_addKey tml2 e2 fr (fst (SplatAnimTrack_addKey tml1 e1 fr ktr)))
        = [KeyUpdated fr]
    \<and> keyframes (fst (SplatAnimTrack_addKey tml2 e2 fr (fst (SplatAnimTrack_addKey tml1 e1 fr ktr))))
        = (keyframes ktr)[i := \<lparr>TransformKey.frame = fr, position = localPosition e2, rotation = localRotation e2, scale = localScale e2\<rparr>]
    \<and> SplatAnimTrack_keys (fst (SplatAnimTrack_addKey tml2 e2 fr (fst (SplatAnimTrack_addKey tml1 e1 fr ktr)))) = SplatAnimTrack_keys ktr
    \<and> (distinct (SplatAnimTrack_keys ktr)
         \<longrightarrow> count_list (SplatAnimTrack_keys (fst (SplatAnimTrack_addKey tml2 e2 fr (fst (SplatAnimTrack_addKey tml1 e1 fr ktr))))) fr = 1))
   \<and> (findIndex (\<lambda>p. Pose.frame p = fr) (poses kctr) = Some j \<longrightarrow>
      snd (CameraAnimTrack_addKey tml1 (Some p1) fr kctr) = [KeyUpdated fr]
    \<and> poses (fst (CameraAnimTrack_addKey tml1 (Some p1) fr kctr))
        = (poses kctr)[j := \<lparr>Pose.name = ''camera_'' @ decimal (length (poses kctr)), frame = fr, position = CameraPose.position p1, target = CameraPose.target p1\<rparr>]
    \<and> snd (CameraAnimTrack_addKey tml2 (Some p2) fr (fst (CameraAnimTrack_addKey tml1 (Some p1) fr kctr)))
        = [KeyUpdated fr]
    \<and> poses (fst (CameraAnimTrack_addKey tml2 (Some p2) fr (fst (CameraAnimTrack_addKey tml1 (Some p1) fr kctr))))
        = (poses kctr)[j := \<lparr>Pose.name = ''camera_'' @ decimal (length (poses kctr)), frame = fr, position = CameraPose.position p2, target = CameraPose.target p2\<rparr>]
    \<and> CameraAnimTrack_keys (fst (CameraAnimTrack_addKey tml2 (Some p2) fr (fst (CameraAnimTrack_addKey tml1 (Some p1) fr kctr)))) = CameraAnimTrack_keys kctr
    \<and> (distinct (CameraAnimTrack_keys kctr)
         \<longrightarrow> count_list (CameraAnimTrack_keys (fst (CameraAnimTrack_addKey tml2 (Some p2) fr (fst (CameraAnimTrack_addKey tml1 (Some p1) fr kctr))))) fr = 1))"
  using SplatAnimTrack_addKey_twice_new [of fr tr tml1 e1 tml2 e2]
    CameraAnimTrack_addKey_twice_new [of fr ctr tml1 p1 tml2 p2]
    SplatAnimTrack_addKey_twice_keyed [of fr ktr i tml1 e1 tml2 e2]
    CameraAnimTrack_addKey_twice_keyed [of fr kctr j tml1 p1 tml2 p2]
  by blast

text \<open>
  The amended C6 at frame 4: on new tracks, and on tracks that hold keys at frames 7, 4
  and 9 in this store order, where the record at index 1 is replaced and the records at
  frames 7 and 9 stay where they are.
\<close>

theorem addKey_twice_witness:
  "4 \<notin> set (SplatAnimTrack_keys SplatAnimTrack_new)
   \<and> keyframes (fst (SplatAnimTrack_addKey \<lparr>timeline_frames = 20, timeline_frame = 7, timeline_smoothness = 1, timeline_frameRate = 30\<rparr> \<lparr>localPosition = (2, 0, 0), localRotation = (0, 1, 0, 0), localScale = (1, 1, 1)\<rparr> 4 (fst (SplatAnimTrack_addKey \<lparr>timeline_frames = 20, timeline_frame = 7, timeline_smoothness = 1, timeline_frameRate = 30\<rparr> \<lparr>localPosition = (0, 0, 0), localRotation = (0, 0, 0, 1), localScale = (1, 1, 1)\<rparr> 4 SplatAnimTrack_new))))
     = [\<lparr>TransformKey.frame = 4, position = (2, 0, 0), rotation = (0, 1, 0, 0), scale = (1, 1, 1)\<rparr>]
   \<and> snd (SplatAnimTrack_addKey \<lparr>timeline_frames = 20, timeline_frame = 7, timeline_smoothness = 1, timeline_frameRate = 30\<rparr> \<lparr>localPosition = (2, 0, 0), localRotation = (0, 1, 0, 0), localScale = (1, 1, 1)\<rparr> 4 (fst (SplatAnimTrack_addKey \<lparr>timeline_frames = 20, timeline_frame = 7, timeline_smoothness = 1, timeline_frameRate = 30\<rparr> \<lparr>localPosition = (0, 0, 0), localRotation = (0, 0, 0, 1), localScale = (1, 1, 1)\<rparr> 4 SplatAnimTrack_new)))
     = [KeyUpdated 4]
   \<and> 4 \<notin> set (CameraAnimTrack_keys CameraAnimTrack_new)
   \<and> poses (fst (CameraAnimTrack_addKey \<lparr>timeline_frames = 20, timeline_frame = 7, timeline_smoothness = 1, timeline_frameRate = 30\<rparr> (Some \<lparr>CameraPose.position = (3, 1, 2), target = (0, 0, 1)\<rparr>) 4 (fst (CameraAnimTrack_addKey \<lparr>timeline_frames = 20, timeline_frame = 7, timeline_smoothness = 1, timeline_frameRate = 30\<rparr> (Some \<lparr>CameraPose.position = (0, 1, 2), target = (0, 0, 0)\<rparr>) 4 CameraAnimTrack_new))))
     = [\<lparr>Pose.name = ''camera_1'', frame = 4, position = (3, 1, 2), target = (0, 0, 1)\<rparr>]
   \<and> snd (CameraAnimTrack_addKey \<lparr>timeline_frames = 20, timeline_frame = 7, timeline_smoothness = 1, timeline_frameRate = 30\<rparr> (Some \<lparr>CameraPose.position = (3, 1, 2), target = (0, 0, 1)\<rparr>) 4 (fst (CameraAnimTrack_addKey \<lparr>timeline_frames = 20, timeline_frame = 7, timeline_smoothness = 1, timeline_frameRate = 30\<rparr> (Some \<lparr>CameraPose.position = (0, 1, 2), target = (0, 0, 0)\<rparr>) 4 CameraAnimTrack_new)))
     = [KeyUpdated 4]
   \<and> findIndex (\<lambda>k. TransformKey.frame k = 4) (keyframes \<lparr>keyframes =
          [\<lparr>TransformKey.frame = 7, position = (5, 0, 0), rotation = (0, 0, 0, 1), scale = (1, 1, 1)\<rparr>,
           \<lparr>TransformKey.frame = 4, position = (6, 0, 0), rotation = (0, 0, 0, 1), scale = (1, 1, 1)\<rparr>,
           \<lparr>TransformKey.frame = 9, position = (8, 0, 0), rotation = (0, 0, 0, 1), scale = (1, 1, 1)\<rparr>],
        positionSpline = None, scaleSpline = None, SplatAnimTrack.onTimelineChange = None\<rparr>) = Some 1
   \<and> snd (SplatAnimTrack_addKey \<lparr>timeline_frames = 20, timeline_frame = 7, timeline_smoothness = 1, timeline_frameRate = 30\<rparr> \<lparr>localPosition = (0, 0, 0), localRotation = (0, 0, 0, 1), localScale = (1, 1, 1)\<rparr> 4 \<lparr>keyframes =
          [\<lparr>TransformKey.frame = 7, position = (5, 0, 0), rotation = (0, 0, 0, 1), scale = (1, 1, 1)\<rparr>,
           \<lparr>TransformKey.frame = 4, position = (6, 0, 0), rotation = (0, 0, 0, 1), scale = (1, 1, 1)\<rparr>,
           \<lparr>TransformKey.frame = 9, position = (8, 0, 0), rotation = (0, 0, 0, 1), scale = (1, 1, 1)\<rparr>],
        positionSpline = None, scaleSpline = None, SplatAnimTrack.onTimelineChange = None\<rparr>)
     = [KeyUpdated 4]
   \<and> keyframes (fst (SplatAnimTrack_addKey \<lparr>timeline_frames = 20, timeline_frame = 7, timeline_smoothness = 1, timeline_frameRate = 30\<rparr> \<lparr>localPosition = (2, 0, 0), localRotation = (0, 1, 0, 0), localScale = (1, 1, 1)\<rparr> 4 (fst (SplatAnimTrack_addKey \<lparr>timeline_frames = 20, timeline_frame = 7, timeline_smoothness = 1, timeline_frameRate = 30\<rparr> \<lparr>localPosition = (0, 0, 0), localRotation = (0, 0, 0, 1), localScale = (1, 1, 1)\<rparr> 4 \<lparr>keyframes =
          [\<lparr>TransformKey.frame = 7, position = (5, 0, 0), rotation = (0, 0, 0, 1), scale = (1, 1, 1)\<rparr>,
           \<lparr>TransformKey.frame = 4, position = (6, 0, 0), rotation = (0, 0, 0, 1), scale = (1, 1, 1)\<rparr>,
           \<lparr>TransformKey.frame = 9, position = (8, 0, 0), rotation = (0, 0, 0, 1), scale = (1, 1, 1)\<rparr>],
        positionSpline = None, scaleSpline = None, SplatAnimTrack.onTimelineChange = None\<rparr>))))
     = [\<lparr>TransformKey.frame = 7, position = (5, 0, 0), rotation = (0, 0, 0, 1), scale = (1, 1, 1)\<rparr>,
        \<lparr>TransformKey.frame = 4, position = (2, 0, 0), rotation = (0, 1, 0, 0), scale = (1, 1, 1)\<rparr>,
        \<lparr>TransformKey.frame = 9, position = (8, 0, 0), rotation = (0, 0, 0, 1), scale = (1, 1, 1)\<rparr>]
   \<and> snd (SplatAnimTrack_addKey \<lparr>timeline_frames = 20, timeline_frame = 7, timeline_smoothness = 1, timeline_frameRate = 30\<rparr> \<lparr>localPosition = (2, 0, 0), localRotation = (0, 1, 0, 0), localScale = (1, 1, 1)\<rparr> 4 (fst (SplatAnimTrack_addKey \<lparr>timeline_frames = 20, timeline_frame = 7, timeline_smoothness = 1, timeline_frameRate = 30\<rparr> \<lparr>localPosition = (0, 0, 0), localRotation = (0, 0, 0, 1), localScale = (1, 1, 1)\<rparr> 4 \<lparr>keyframes =
          [\<lparr>TransformKey.frame = 7, position = (5, 0, 0), rotation = (0, 0, 0, 1), scale = (1, 1, 1)\<rparr>,
           \<lparr>TransformKey.frame = 4, position = (6, 0, 0), rotation = (0, 0, 0, 1), scale = (1, 1, 1)\<rparr>,
           \<lparr>TransformKey.frame = 9, position = (8, 0, 0), rotation = (0, 0, 0, 1), scale = (1, 1, 1)\<rparr>],
        positionSpline = None, scaleSpline = None, SplatAnimTrack.onTimelineChange = None\<rparr>)))
     = [KeyUpdated 4]
   \<and> findIndex (\<lambda>p. Pose.frame p = 4) (poses \<lparr>poses =
          [\<lparr>Pose.name = ''a'', frame = 7, position = (5, 1, 1), target = (0, 0, 0)\<rparr>,
           \<lparr>Pose.name = ''b'', frame = 4, position = (6, 1, 1), target = (0, 0, 0)\<rparr>,
           \<lparr>Pose.name = ''c'', frame = 9, position = (8, 1, 1), target = (0, 0, 0)\<rparr>],
        CameraAnimTrack.onTimelineChange = None\<rparr>) = Some 1
   \<and> snd (CameraAnimTrack_addKey \<lparr>timeline_frames = 20, timeline_frame = 7, timeline_smoothness = 1, timeline_frameRate = 30\<rparr> (Some \<lparr>CameraPose.position = (0, 1, 2), target = (0, 0, 0)\<rparr>) 4 \<lparr>poses =
          [\<lparr>Pose.name = ''a'', frame = 7, position = (5, 1, 1), target = (0, 0, 0)\<rparr>,
           \<lparr>Pose.name = ''b'', frame = 4, position = (6, 1, 1), target = (0, 0, 0)\<rparr>,
           \<lparr>Pose.name = ''c'', frame = 9, position = (8, 1, 1), target = (0, 0, 0)\<rparr>],
        CameraAnimTrack.onTimelineChange = None\<rparr>)
     = [KeyUpdated 4]
   \<and> poses (fst (CameraAnimTrack_addKey \<lparr>timeline_frames = 20, timeline_frame = 7, timeline_smoothness = 1, timeline_frameRate = 30\<rparr> (Some \<lparr>CameraPose.position = (3, 1, 2), target = (0, 0, 1)\<rparr>) 4 (fst (CameraAnimTrack_addKey \<lparr>timeline_frames = 20, timeline_frame = 7, timeline_smoothness = 1, timeline_frameRate = 30\<rparr> (Some \<lparr>CameraPose.position = (0, 1, 2), target = (0, 0, 0)\<rparr>) 4 \<lparr>poses =
          [\<lparr>Pose.name = ''a'', frame = 7, position = (5, 1, 1), target = (0, 0, 0)\<rparr>,
           \<lparr>Pose.name = ''b'', frame = 4, position = (6, 1, 1), target = (0, 0, 0)\<rparr>,
           \<lparr>Pose.name = ''c'', frame = 9, position = (8, 1, 1), target = (0, 0, 0)\<rparr>],
        CameraAnimTrack.onTimelineChange = None\<rparr>))))
     = [\<lparr>Pose.name = ''a'', frame = 7, position = (5, 1, 1), target = (0, 0, 0)\<rparr>,
        \<lparr>Pose.name = ''camera_3'', frame = 4, position = (3, 1, 2), target = (0, 0, 1)\<rparr>,
        \<lparr>Pose.name = ''c'', frame = 9, position = (8, 1, 1), target = (0, 0, 0)\<rparr>]
   \<and> snd (CameraAnimTrack_addKey \<lparr>timeline_frames = 20, timeline_frame = 7, timeline_smoothness = 1, timeline_frameRate = 30\<rparr> (Some \<lparr>CameraPose.position = (3, 1, 2), target = (0, 0, 1)\<rparr>) 4 (fst (CameraAnimTrack_addKey \<lparr>timeline_frames = 20, timeline_frame = 7, timeline_smoothness = 1, timeline_frameRate = 30\<rparr> (Some \<lparr>CameraPose.position = (0, 1, 2), target = (0, 0, 0)\<rparr>) 4 \<lparr>poses =
          [\<lparr>Pose.name = ''a'', frame = 7, position = (5, 1, 1), target = (0, 0, 0)\<rparr>,
           \<lparr>Pose.name = ''b'', frame = 4, position = (6, 1, 1), target = (0, 0, 0)\<rparr>,
           \<lparr>Pose.name = ''c'', frame = 9, position = (8, 1, 1), target = (0, 0, 0)\<rparr>],
        CameraAnimTrack.onTimelineChange = None\<rparr>)))
     = [KeyUpdated 4]"
proof -
  have new: "4 \<notin> set (SplatAnimTrack_keys SplatAnimTrack_new)"
    "4 \<notin> set (CameraAnimTrack_keys CameraAnimTrack_new)"
    by (simp_all add: SplatAnimTrack_keys_def SplatAnimTrack_new_def CameraAnimTrack_keys_def
          CameraAnimTrack_new_def)
  have dec: "decimal (Suc 0) = ''1''" "decimal (Suc (Suc (Suc 0))) = ''3''"
    by (simp_all add: decimal.simps)
  have emp: "keyframes SplatAnimTrack_new = []" "poses CameraAnimTrack_new = []"
    by (simp_all add: SplatAnimTrack_new_def CameraAnimTrack_new_def)
  have fs: "findIndex (\<lambda>k. TransformKey.frame k = 4) (keyframes \<lparr>keyframes =
          [\<lparr>TransformKey.frame = 7, position = (5, 0, 0), rotation = (0, 0, 0, 1), scale = (1, 1, 1)\<rparr>,
           \<lparr>TransformKey.frame = 4, position = (6, 0, 0), rotation = (0, 0, 0, 1), scale = (1, 1, 1)\<rparr>,
           \<lparr>TransformKey.frame = 9, position = (8, 0, 0), rotation = (0, 0, 0, 1), scale = (1, 1, 1)\<rparr>],
        positionSpline = None, scaleSpline = None, SplatAnimTrack.onTimelineChange = None\<rparr>) = Some 1"
    by simp
  have fc: "findIndex (\<lambda>p. Pose.frame p = 4) (poses \<lparr>poses =
          [\<lparr>Pose.name = ''a'', frame = 7, position = (5, 1, 1), target = (0, 0, 0)\<rparr>,
           \<lparr>Pose.name = ''b'', frame = 4, position = (6, 1, 1), target = (0, 0, 0)\<rparr>,
           \<lparr>Pose.name = ''c'', frame = 9, position = (8, 1, 1), target = (0, 0, 0)\<rparr>],
        CameraAnimTrack.onTimelineChange = None\<rparr>) = Some 1"
    by simp
  show ?thesis
    using new fs fc addKey_twice
      [where fr = 4 and tr = SplatAnimTrack_new and ctr = CameraAnimTrack_new
         and ?tml1.0 = "\<lparr>timeline_frames = 20, timeline_frame = 7, timeline_smoothness = 1, timeline_frameRate = 30\<rparr>" and ?tml2.0 = "\<lparr>timeline_frames = 20, timeline_frame = 7, timeline_smoothness = 1, timeline_frameRate = 30\<rparr>"
         and ?e1.0 = "\<lparr>localPosition = (0, 0, 0), localRotation = (0, 0, 0, 1), localScale = (1, 1, 1)\<rparr>" and ?e2.0 = "\<lparr>localPosition = (2, 0, 0), localRotation = (0, 1, 0, 0), localScale = (1, 1, 1)\<rparr>"
         and ?p1.0 = "\<lparr>CameraPose.position = (0, 1, 2), target = (0, 0, 0)\<rparr>" and ?p2.0 = "\<lparr>CameraPose.position = (3, 1, 2), target = (0, 0, 1)\<rparr>"
         and ktr = "\<lparr>keyframes =
          [\<lparr>TransformKey.frame = 7, position = (5, 0, 0), rotation = (0, 0, 0, 1), scale = (1, 1, 1)\<rparr>,
           \<lparr>TransformKey.frame = 4, position = (6, 0, 0), rotation = (0, 0, 0, 1), scale = (1, 1, 1)\<rparr>,
           \<lparr>TransformKey.frame = 9, position = (8, 0, 0), rotation = (0, 0, 0, 1), scale = (1, 1, 1)\<rparr>],
        positionSpline = None, scaleSpline = None, SplatAnimTrack.onTimelineChange = None\<rparr>"
         and kctr = "\<lparr>poses =
          [\<lparr>Pose.name = ''a'', frame = 7, position = (5, 1, 1), target = (0, 0, 0)\<rparr>,
           \<lparr>Pose.name = ''b'', frame = 4, position = (6, 1, 1), target = (0, 0, 0)\<rparr>,
           \<lparr>Pose.name = ''c'', frame = 9, position = (8, 1, 1), target = (0, 0, 0)\<rparr>],
        CameraAnimTrack.onTimelineChange = None\<rparr>"
         and i = 1 and j = 1]
    by (simp add: dec emp)
qed

text \<open>
  C6 as stated fails in two ways. With no pose available, two calls of \<^verbatim>\<open>addKey(4)\<close>
  on a new pose track leave the store empty: no keyframe at frame 4. And on a transform
  track that already holds a key at frame 4, the first call does not append and fires
  \<^verbatim>\<open>keyUpdated\<close>, not \<^verbatim>\<open>keyAdded\<close>.
\<close>

theorem addKey_twice_counterexample:
  "CameraAnimTrack_keys (fst (CameraAnimTrack_addKey \<lparr>timeline_frames = 20, timeline_frame = 7, timeline_smoothness = 1, timeline_frameRate = 30\<rparr> None 4
      (fst (CameraAnimTrack_addKey \<lparr>timeline_frames = 20, timeline_frame = 7, timeline_smoothness = 1, timeline_frameRate = 30\<rparr> None 4 CameraAnimTrack_new)))) = []
   \<and> snd (SplatAnimTrack_addKey \<lparr>timeline_frames = 20, timeline_frame = 7, timeline_smoothness = 1, timeline_frameRate = 30\<rparr> \<lparr>localPosition = (2, 0, 0), localRotation = (0, 1, 0, 0), localScale = (1, 1, 1)\<rparr> 4
      \<lparr>keyframes = [\<lparr>TransformKey.frame = 4, position = (0, 0, 0), rotation = (0, 0, 0, 1), scale = (1, 1, 1)\<rparr>],
        positionSpline = None, scaleSpline = None, SplatAnimTrack.onTimelineChange = None\<rparr>)
     = [KeyUpdated 4]"
  by (simp add: CameraAnimTrack_addKey_def CameraAnimTrack_keys_def CameraAnimTrack_new_def
        SplatAnimTrack_addKey_def)

section \<open>Rotation between two keys\<close>






end
